theory Spec2Isabelle
  imports Complex_Main "HOL-Library.Word"
begin

section \<open>Shared environment: files, console, clock\<close>

text \<open>
  The three programs of the repository (\<^verbatim>\<open>agent.py\<close>, \<^verbatim>\<open>agent1.py\<close>,
  \<^verbatim>\<open>sip-config/sip_manager.py\<close>) are embedded as pure functions. Everything they do besides
  returning a value is explicit: the file system and the console are fields of a
  \<open>world\<close> that each operation takes and returns, an exception is the \<open>Inl\<close> branch of a sum,
  and a reading of the clock (\<^verbatim>\<open>datetime.now()\<close>) is an argument, in microseconds.

  Python's \<^verbatim>\<open>float\<close> operations are written \<open>rnd (x op y)\<close> over the reals, where \<open>rnd\<close> is the
  rounding of the binary64 format, a parameter of every function that computes with floats.
\<close>

type_synonym byte = "8 word"

record wav =
  framerate :: nat
  nchannels :: nat
  sampwidth :: nat
  wav_frames :: "byte list"

record message =
  role :: string
  msg_text :: string
  timestamp :: int
  language :: "string option"

record recording_data =
  rd_start_time :: int
  rd_end_time :: int
  rd_duration_us :: int
  rd_messages :: "message list"

datatype stored = WavFile wav | JsonFile recording_data | Truncated

text \<open>One constructor for each \<^verbatim>\<open>print\<close> statement of the recorders, with the values it formats.\<close>

datatype line =
    ConversationStarted string
  | NoConversation
  | ConversationSaved string nat
  | ConversationSaveError
  | LocalAudioStarted string
  | NoAudioFrames
  | LocalAudioSaved string real nat
  | LocalAudioSaveError
  | AudioStarted string
  | DetectedSampleRate nat string
  | NoAudioFramesFor string
  | AudioSaved string real nat nat
  | AudioSaveError
  | CombinedSaved string real nat
  | CombineError
  | NoActiveRecording

text \<open>
  \<open>writable\<close> is the environment's answer to opening a path for writing (it covers a missing
  directory that cannot be created, permissions, a full disk). \<open>stop_calls\<close> is a ghost field:
  the \<^verbatim>\<open>filepath\<close> of every recorder whose \<^verbatim>\<open>stop()\<close> has run, in order.
\<close>

record world =
  files :: "string \<Rightarrow> stored option"
  writable :: "string \<Rightarrow> bool"
  console :: "line list"
  stop_calls :: "string list"

definition print :: "line \<Rightarrow> world \<Rightarrow> world" where
  "print l w = w\<lparr>console := console w @ [l]\<rparr>"

datatype py_error =
    OSError | WaveError | StructError | ZeroDivisionError | IndexError | KeyError
  | TypeError | AttributeError | ValueError | ClientError | ContentTypeError | ApiError
  | EOFError

section \<open>Strings\<close>

text \<open>
  \<^verbatim>\<open>str.strip()\<close> removes leading and trailing whitespace. A \<open>char\<close> stands for a code point
  below 256; these are the ones for which \<^verbatim>\<open>str.isspace\<close> holds there.
\<close>

definition py_isspace :: "char \<Rightarrow> bool" where
  "py_isspace c = (of_char c \<in> set [9, 10, 11, 12, 13, 28, 29, 30, 31, 32, 133, 160 :: nat])"

definition strip :: "string \<Rightarrow> string" where
  "strip s = rev (dropWhile py_isspace (rev (dropWhile py_isspace s)))"

section \<open>ConversationRecorder (agent.py 78-136, agent1.py 154-212)\<close>

record conversation_recorder =
  cr_filepath :: string
  transcript :: "message list"
  start_time :: int
  cr_is_recording :: bool

definition ConversationRecorder :: "string \<Rightarrow> int \<Rightarrow> conversation_recorder" where
  "ConversationRecorder filepath now =
     \<lparr>cr_filepath = filepath, transcript = [], start_time = now, cr_is_recording = False\<rparr>"

definition cr_start :: "int \<Rightarrow> conversation_recorder \<Rightarrow> world \<Rightarrow> conversation_recorder \<times> world" where
  "cr_start now r w =
     (r\<lparr>cr_is_recording := True, transcript := [], start_time := now\<rparr>,
      print (ConversationStarted (cr_filepath r)) w)"

definition add_user_message :: "string \<Rightarrow> string \<Rightarrow> int \<Rightarrow> conversation_recorder \<Rightarrow> conversation_recorder" where
  "add_user_message txt lang now r =
     (if cr_is_recording r \<and> strip txt \<noteq> []
      then r\<lparr>transcript := transcript r @
             [\<lparr>role = ''user'', msg_text = txt, timestamp = now, language = Some lang\<rparr>]\<rparr>
      else r)"

definition add_agent_message :: "string \<Rightarrow> int \<Rightarrow> conversation_recorder \<Rightarrow> conversation_recorder" where
  "add_agent_message txt now r =
     (if cr_is_recording r \<and> strip txt \<noteq> []
      then r\<lparr>transcript := transcript r @
             [\<lparr>role = ''assistant'', msg_text = txt, timestamp = now, language = None\<rparr>]\<rparr>
      else r)"

text \<open>
  \<^verbatim>\<open>stop\<close> reads the clock twice (end time, duration). The write is inside \<^verbatim>\<open>try\<close>: a failure
  prints and is swallowed.
\<close>

definition cr_stop :: "int \<Rightarrow> int \<Rightarrow> conversation_recorder \<Rightarrow> world \<Rightarrow> conversation_recorder \<times> world" where
  "cr_stop now1 now2 r w0 =
     (let r' = r\<lparr>cr_is_recording := False\<rparr>;
          w = w0\<lparr>stop_calls := stop_calls w0 @ [cr_filepath r]\<rparr>
      in if transcript r = [] then (r', print NoConversation w)
         else if writable w (cr_filepath r)
         then (r', print (ConversationSaved (cr_filepath r) (length (transcript r)))
                 (w\<lparr>files := (files w)(cr_filepath r \<mapsto> JsonFile
                       \<lparr>rd_start_time = start_time r, rd_end_time = now1,
                        rd_duration_us = now2 - start_time r, rd_messages = transcript r\<rparr>)\<rparr>))
         else (r', print ConversationSaveError w))"

text \<open>A caller's view of the recorder: one constructor per method, with its arguments.\<close>

datatype cr_call =
    CStart int
  | CAddUser string string int
  | CAddAgent string int
  | CStop int int

fun cr_apply :: "cr_call \<Rightarrow> conversation_recorder \<times> world \<Rightarrow> conversation_recorder \<times> world" where
  "cr_apply (CStart now) (r, w) = cr_start now r w"
| "cr_apply (CAddUser txt lang now) (r, w) = (add_user_message txt lang now r, w)"
| "cr_apply (CAddAgent txt now) (r, w) = (add_agent_message txt now r, w)"
| "cr_apply (CStop now1 now2) (r, w) = cr_stop now1 now2 r w"

definition cr_run :: "cr_call list \<Rightarrow> conversation_recorder \<times> world \<Rightarrow> conversation_recorder \<times> world" where
  "cr_run calls s = foldl (\<lambda>s c. cr_apply c s) s calls"

text \<open>The entry a call appends when it is accepted (\<open>None\<close> for start and stop).\<close>

fun cr_entry :: "cr_call \<Rightarrow> message option" where
  "cr_entry (CAddUser txt lang now) =
     Some \<lparr>role = ''user'', msg_text = txt, timestamp = now, language = Some lang\<rparr>"
| "cr_entry (CAddAgent txt now) =
     Some \<lparr>role = ''assistant'', msg_text = txt, timestamp = now, language = None\<rparr>"
| "cr_entry _ = None"

definition nonblank_entries :: "cr_call list \<Rightarrow> message list" where
  "nonblank_entries calls =
     filter (\<lambda>m. strip (msg_text m) \<noteq> []) (List.map_filter cr_entry calls)"

definition is_add :: "cr_call \<Rightarrow> bool" where
  "is_add c = (cr_entry c \<noteq> None)"

section \<open>Python arithmetic and indexing\<close>

text \<open>
  What the proofs use of the rounding of binary64 (round to nearest): it is monotone, it
  leaves 0 and 1 alone, and on the interval that holds every product and sum of the
  interpolation its error is far below \<open>1 / 2 ^ 20\<close> (there it is at most \<open>1 / 2 ^ 37\<close>).
\<close>

definition binary64_like :: "(real \<Rightarrow> real) \<Rightarrow> bool" where
  "binary64_like rnd =
     (mono rnd \<and> rnd 0 = 0 \<and> rnd 1 = 1 \<and> (\<forall>x. \<bar>x\<bar> \<le> 65536 \<longrightarrow> \<bar>rnd x - x\<bar> \<le> 1 / 2 ^ 20))"

text \<open>The range of a signed 16-bit sample.\<close>

definition int16 :: "int \<Rightarrow> bool" where
  "int16 v = (- 32768 \<le> v \<and> v \<le> 32767)"

text \<open>\<^verbatim>\<open>int(x)\<close> of a float truncates toward zero.\<close>

definition py_int :: "real \<Rightarrow> int" where
  "py_int x = (if 0 \<le> x then \<lfloor>x\<rfloor> else \<lceil>x\<rceil>)"

text \<open>True division \<^verbatim>\<open>a / b\<close>: the rounded quotient, or ZeroDivisionError.\<close>

definition py_truediv :: "(real \<Rightarrow> real) \<Rightarrow> real \<Rightarrow> real \<Rightarrow> py_error + real" where
  "py_truediv rnd a b = (if b = 0 then Inl ZeroDivisionError else Inr (rnd (a / b)))"

text \<open>\<^verbatim>\<open>xs[i]\<close>: a negative index counts from the end; out of range raises IndexError.\<close>

definition py_index :: "'a list \<Rightarrow> int \<Rightarrow> py_error + 'a" where
  "py_index xs i =
     (if 0 \<le> i \<and> i < int (length xs) then Inr (xs ! nat i)
      else if i < 0 \<and> - int (length xs) \<le> i then Inr (xs ! nat (int (length xs) + i))
      else Inl IndexError)"

text \<open>\<^verbatim>\<open>range(n)\<close> is empty for \<open>n \<le> 0\<close>.\<close>

definition py_range :: "int \<Rightarrow> int list" where
  "py_range n = map int [0..<nat n]"

text \<open>A loop that appends one value per iteration and stops at the first exception.\<close>

fun collect :: "('a \<Rightarrow> py_error + 'b) \<Rightarrow> 'a list \<Rightarrow> py_error + 'b list" where
  "collect f [] = Inr []"
| "collect f (x # xs) =
     (case f x of
        Inl e \<Rightarrow> Inl e
      | Inr y \<Rightarrow> (case collect f xs of Inl e \<Rightarrow> Inl e | Inr ys \<Rightarrow> Inr (y # ys)))"

text \<open>
  \<^verbatim>\<open>s.replace(old, new)\<close> for a non-empty \<open>old\<close>: occurrences are replaced from the left and
  do not overlap. The counter is the number of characters of a matched \<open>old\<close> still to skip.
\<close>

fun replace_from :: "string \<Rightarrow> string \<Rightarrow> nat \<Rightarrow> string \<Rightarrow> string" where
  "replace_from old new k [] = []"
| "replace_from old new (Suc k) (c # cs) = replace_from old new k cs"
| "replace_from old new 0 (c # cs) =
     (if take (length old) (c # cs) = old
      then new @ replace_from old new (length old - 1) cs
      else c # replace_from old new 0 cs)"

definition py_replace :: "string \<Rightarrow> string \<Rightarrow> string \<Rightarrow> string" where
  "py_replace old new s = replace_from old new 0 s"

section \<open>The wave and struct modules, as far as the recorders use them\<close>

text \<open>
  Writing: \<^verbatim>\<open>wave.open(path, 'wb')\<close> creates the file, \<^verbatim>\<open>setnchannels\<close> rejects a count below 1
  and \<^verbatim>\<open>setframerate\<close> a rate that is not positive (the file is then left without a header).
\<close>

definition write_wav :: "string \<Rightarrow> nat \<Rightarrow> nat \<Rightarrow> nat \<Rightarrow> byte list \<Rightarrow> world \<Rightarrow> (py_error + unit) \<times> world" where
  "write_wav path nch sw rate bytes w =
     (if \<not> writable w path then (Inl OSError, w)
      else if nch < 1 \<or> rate = 0 then (Inl WaveError, w\<lparr>files := (files w)(path \<mapsto> Truncated)\<rparr>)
      else (Inr (), w\<lparr>files := (files w)(path \<mapsto> WavFile
              \<lparr>framerate = rate, nchannels = nch, sampwidth = sw, wav_frames = bytes\<rparr>)\<rparr>))"

text \<open>
  Reading: \<^verbatim>\<open>getparams()\<close> and \<^verbatim>\<open>readframes(nframes)\<close>, which returns whole frames only
  (\<open>nframes\<close> is the size of the data divided by the frame size).
\<close>

definition read_wav :: "world \<Rightarrow> string \<Rightarrow> py_error + (wav \<times> byte list)" where
  "read_wav w path =
     (case files w path of
        None \<Rightarrow> Inl OSError
      | Some (WavFile f) \<Rightarrow>
          if nchannels f = 0 \<or> sampwidth f = 0 then Inl WaveError
          else (let framesize = nchannels f * sampwidth f
                in Inr (f, take ((length (wav_frames f) div framesize) * framesize) (wav_frames f)))
      | Some _ \<Rightarrow> Inl WaveError)"

text \<open>\<^verbatim>\<open>struct.unpack('<{n//2}h', buf)\<close> with \<open>n = len(buf)\<close>: little-endian signed 16-bit.\<close>

fun le16_samples :: "byte list \<Rightarrow> int list" where
  "le16_samples (lo # hi # rest) = sint (word_cat hi lo :: 16 word) # le16_samples rest"
| "le16_samples _ = []"

definition unpack_h :: "byte list \<Rightarrow> py_error + int list" where
  "unpack_h buf = (if odd (length buf) then Inl StructError else Inr (le16_samples buf))"

text \<open>\<^verbatim>\<open>struct.pack('<{n}h', *samples)\<close>: a value outside the 16-bit range raises.\<close>

definition le16_bytes :: "int \<Rightarrow> byte list" where
  "le16_bytes v = [ucast (word_of_int v :: 16 word), ucast (drop_bit 8 (word_of_int v :: 16 word))]"

definition pack_h :: "int list \<Rightarrow> py_error + byte list" where
  "pack_h samples =
     (if list_all int16 samples
      then Inr (concat (map le16_bytes samples)) else Inl StructError)"

section \<open>LocalAudioRecorder (agent.py 25-75)\<close>

record audio_frame =
  frame_data :: "byte list"
  frame_sample_rate :: nat

record local_audio_recorder =
  lar_filepath :: string
  lar_sample_rate :: nat
  lar_num_channels :: nat
  lar_frames :: "byte list list"
  lar_is_recording :: bool




definition lar_stop :: "(real \<Rightarrow> real) \<Rightarrow> local_audio_recorder \<Rightarrow> world \<Rightarrow> local_audio_recorder \<times> world" where
  "lar_stop rnd r w0 =
     (let r' = r\<lparr>lar_is_recording := False\<rparr>;
          w = w0\<lparr>stop_calls := stop_calls w0 @ [lar_filepath r]\<rparr>
      in if lar_frames r = [] then (r', print NoAudioFrames w)
         else
           (let audio_data = concat (lar_frames r)
            in case write_wav (lar_filepath r) (lar_num_channels r) 2 (lar_sample_rate r) audio_data w of
                 (Inl e, w') \<Rightarrow> (r', print LocalAudioSaveError w')
               | (Inr u, w') \<Rightarrow>
                   (case py_truediv rnd (real (length audio_data))
                           (real (lar_sample_rate r * lar_num_channels r * 2)) of
                      Inl e \<Rightarrow> (r', print LocalAudioSaveError w')
                    | Inr duration \<Rightarrow>
                        (r', print (LocalAudioSaved (lar_filepath r) duration (length (lar_frames r))) w'))))"


section \<open>AudioRecorder (agent1.py 24-75)\<close>

record audio_recorder =
  ar_filepath :: string
  ar_num_channels :: nat
  ar_frames :: "byte list list"
  ar_sample_rate :: "nat option"
  ar_is_recording :: bool

definition AudioRecorder :: "string \<Rightarrow> audio_recorder" where
  "AudioRecorder filepath =
     \<lparr>ar_filepath = filepath, ar_num_channels = 1, ar_frames = [], ar_sample_rate = None,
      ar_is_recording = False\<rparr>"

definition ar_start :: "audio_recorder \<Rightarrow> world \<Rightarrow> audio_recorder \<times> world" where
  "ar_start r w =
     (r\<lparr>ar_is_recording := True, ar_frames := [], ar_sample_rate := None\<rparr>,
      print (AudioStarted (ar_filepath r)) w)"

definition ar_add_frame :: "audio_frame option \<Rightarrow> audio_recorder \<Rightarrow> world \<Rightarrow> audio_recorder \<times> world" where
  "ar_add_frame frame r w =
     (case frame of
        None \<Rightarrow> (r, w)
      | Some f \<Rightarrow>
          if ar_is_recording r
          then (case ar_sample_rate r of
                  None \<Rightarrow> (r\<lparr>ar_sample_rate := Some (frame_sample_rate f),
                              ar_frames := ar_frames r @ [frame_data f]\<rparr>,
                            print (DetectedSampleRate (frame_sample_rate f) (ar_filepath r)) w)
                | Some sr \<Rightarrow> (r\<lparr>ar_frames := ar_frames r @ [frame_data f]\<rparr>, w))
          else (r, w))"

definition ar_stop :: "(real \<Rightarrow> real) \<Rightarrow> audio_recorder \<Rightarrow> world \<Rightarrow> audio_recorder \<times> world" where
  "ar_stop rnd r w0 =
     (let r1 = r\<lparr>ar_is_recording := False\<rparr>;
          w = w0\<lparr>stop_calls := stop_calls w0 @ [ar_filepath r]\<rparr>
      in if ar_frames r = [] then (r1, print (NoAudioFramesFor (ar_filepath r)) w)
         else
           (let rate = (case ar_sample_rate r of None \<Rightarrow> 48000 | Some sr \<Rightarrow> sr);
                r2 = r1\<lparr>ar_sample_rate := Some rate\<rparr>;
                audio_data = concat (ar_frames r)
            in case write_wav (ar_filepath r) (ar_num_channels r) 2 rate audio_data w of
                 (Inl e, w') \<Rightarrow> (r2, print AudioSaveError w')
               | (Inr u, w') \<Rightarrow>
                   (case py_truediv rnd (real (length audio_data))
                           (real (rate * ar_num_channels r * 2)) of
                      Inl e \<Rightarrow> (r2, print AudioSaveError w')
                    | Inr duration \<Rightarrow>
                        (r2, print (AudioSaved (ar_filepath r) duration rate (length (ar_frames r))) w'))))"

section \<open>combine_audio_files (agent1.py 78-151)\<close>

text \<open>One iteration of the loop of \<^verbatim>\<open>resample\<close> (lines 111-117).\<close>

definition resample_at :: "(real \<Rightarrow> real) \<Rightarrow> int list \<Rightarrow> real \<Rightarrow> int \<Rightarrow> py_error + int" where
  "resample_at rnd samples ratio i =
     (case py_truediv rnd (real_of_int i) ratio of
        Inl e \<Rightarrow> Inl e
      | Inr src_idx \<Rightarrow>
          (let idx = py_int src_idx
           in if idx \<ge> int (length samples) - 1 then py_index samples (- 1)
              else
                (let frac = rnd (src_idx - real_of_int idx)
                 in case py_index samples idx of
                      Inl e \<Rightarrow> Inl e
                    | Inr s0 \<Rightarrow>
                        (case py_index samples (idx + 1) of
                           Inl e \<Rightarrow> Inl e
                         | Inr s1 \<Rightarrow>
                             Inr (py_int (rnd (rnd (real_of_int s0 * rnd (1 - frac))
                                               + rnd (real_of_int s1 * frac))))))))"

definition resample :: "(real \<Rightarrow> real) \<Rightarrow> int list \<Rightarrow> nat \<Rightarrow> nat \<Rightarrow> py_error + int list" where
  "resample rnd samples from_rate to_rate =
     (if from_rate = to_rate then Inr samples
      else case py_truediv rnd (real to_rate) (real from_rate) of
             Inl e \<Rightarrow> Inl e
           | Inr ratio \<Rightarrow>
               (let new_length = py_int (rnd (real (length samples) * ratio))
                in collect (resample_at rnd samples ratio) (py_range new_length)))"






text \<open>Lines 123-126: both lists are extended with zeros to the longer length.\<close>

definition pad_silence :: "nat \<Rightarrow> int list \<Rightarrow> int list" where
  "pad_silence max_length samples = samples @ replicate (max_length - length samples) 0"

text \<open>Lines 129-133: \<^verbatim>\<open>//\<close> is floor division, as \<open>div\<close> on \<open>int\<close> is.\<close>

definition mix :: "int \<Rightarrow> int \<Rightarrow> int" where
  "mix u a = max (- 32768) (min 32767 ((u + a) div 2))"

definition mix_samples :: "int list \<Rightarrow> int list \<Rightarrow> int list" where
  "mix_samples user_samples agent_samples = map (\<lambda>(u, a). mix u a) (zip user_samples agent_samples)"

text \<open>Lines 96-133, from the two decoded files to the target rate and the mixed samples.\<close>

definition mixdown :: "(real \<Rightarrow> real) \<Rightarrow> nat \<Rightarrow> byte list \<Rightarrow> nat \<Rightarrow> byte list \<Rightarrow> py_error + (nat \<times> int list)" where
  "mixdown rnd user_rate user_frames agent_rate agent_frames =
     (let target_sample_rate = max user_rate agent_rate
      in case unpack_h user_frames of
           Inl e \<Rightarrow> Inl e
         | Inr user_samples0 \<Rightarrow>
        (case unpack_h agent_frames of
           Inl e \<Rightarrow> Inl e
         | Inr agent_samples0 \<Rightarrow>
        (case resample rnd user_samples0 user_rate target_sample_rate of
           Inl e \<Rightarrow> Inl e
         | Inr user_samples \<Rightarrow>
        (case resample rnd agent_samples0 agent_rate target_sample_rate of
           Inl e \<Rightarrow> Inl e
         | Inr agent_samples \<Rightarrow>
             (let max_length = max (length user_samples) (length agent_samples)
              in Inr (target_sample_rate,
                      mix_samples (pad_silence max_length user_samples)
                                  (pad_silence max_length agent_samples)))))))"

text \<open>The body of the \<^verbatim>\<open>try\<close>; the world is returned also when an exception is raised.\<close>

definition combine_body :: "(real \<Rightarrow> real) \<Rightarrow> string \<Rightarrow> string \<Rightarrow> string \<Rightarrow> world \<Rightarrow> (py_error + line) \<times> world" where
  "combine_body rnd user_audio_path agent_audio_path output_path w =
     (case read_wav w user_audio_path of
        Inl e \<Rightarrow> (Inl e, w)
      | Inr (user_params, user_frames) \<Rightarrow>
     (case read_wav w agent_audio_path of
        Inl e \<Rightarrow> (Inl e, w)
      | Inr (agent_params, agent_frames) \<Rightarrow>
     (case mixdown rnd (framerate user_params) user_frames (framerate agent_params) agent_frames of
        Inl e \<Rightarrow> (Inl e, w)
      | Inr (target_sample_rate, mixed_samples) \<Rightarrow>
     (case pack_h mixed_samples of
        Inl e \<Rightarrow> (Inl e, w)
      | Inr mixed_bytes \<Rightarrow>
     (case write_wav output_path 1 2 target_sample_rate mixed_bytes w of
        (Inl e, w') \<Rightarrow> (Inl e, w')
      | (Inr u, w') \<Rightarrow>
     (case py_truediv rnd (real (length mixed_samples)) (real target_sample_rate) of
        Inl e \<Rightarrow> (Inl e, w')
      | Inr duration \<Rightarrow> (Inr (CombinedSaved output_path duration target_sample_rate), w')))))))"

definition combine_audio_files :: "(real \<Rightarrow> real) \<Rightarrow> string \<Rightarrow> string \<Rightarrow> string \<Rightarrow> world \<Rightarrow> bool \<times> world" where
  "combine_audio_files rnd user_audio_path agent_audio_path output_path w =
     (case combine_body rnd user_audio_path agent_audio_path output_path w of
        (Inl e, w') \<Rightarrow> (False, print CombineError w')
      | (Inr l, w') \<Rightarrow> (True, print l w'))"

section \<open>Teardown of Variant A (agent.py 212-234, 414-424)\<close>

text \<open>
  The module's global references. A recorder object is reachable through its global only,
  so the object is the value of the reference and clearing the reference drops it.
\<close>

record globals_a =
  a_conversation_recorder :: "conversation_recorder option"
  a_audio_recorder :: "local_audio_recorder option"

definition stop_conversation_a :: "int \<Rightarrow> int \<Rightarrow> globals_a \<times> world \<Rightarrow> globals_a \<times> world" where
  "stop_conversation_a now1 now2 s =
     (case s of (g, w) \<Rightarrow>
        (case a_conversation_recorder g of
           None \<Rightarrow> (g, w)
         | Some r \<Rightarrow> (g\<lparr>a_conversation_recorder := None\<rparr>, snd (cr_stop now1 now2 r w))))"

definition stop_audio_a :: "(real \<Rightarrow> real) \<Rightarrow> globals_a \<times> world \<Rightarrow> globals_a \<times> world" where
  "stop_audio_a rnd s =
     (case s of (g, w) \<Rightarrow>
        (case a_audio_recorder g of
           None \<Rightarrow> (g, w)
         | Some r \<Rightarrow> (g\<lparr>a_audio_recorder := None\<rparr>, snd (lar_stop rnd r w))))"

definition on_shutdown :: "(real \<Rightarrow> real) \<Rightarrow> int \<Rightarrow> int \<Rightarrow> globals_a \<times> world \<Rightarrow> globals_a \<times> world" where
  "on_shutdown rnd now1 now2 s = stop_audio_a rnd (stop_conversation_a now1 now2 s)"

text \<open>
  \<open>ctx\<close> tells whether a job context exists; the third component of the result tells
  whether \<^verbatim>\<open>ctx.shutdown()\<close> was requested.
\<close>

definition hangup_call :: "(real \<Rightarrow> real) \<Rightarrow> bool \<Rightarrow> int \<Rightarrow> int \<Rightarrow> globals_a \<times> world \<Rightarrow> globals_a \<times> world \<times> bool" where
  "hangup_call rnd ctx now1 now2 s =
     (case stop_audio_a rnd (stop_conversation_a now1 now2 s) of (g, w) \<Rightarrow> (g, w, ctx))"

section \<open>Teardown of Variant B (agent1.py 376-414)\<close>

record globals_b =
  b_conversation_recorder :: "conversation_recorder option"
  user_audio_recorder :: "audio_recorder option"
  agent_audio_recorder :: "audio_recorder option"

definition path_exists :: "world \<Rightarrow> string \<Rightarrow> bool" where
  "path_exists w p = (files w p \<noteq> None)"

text \<open>Lines 404-409; a path is \<open>None\<close> or a string, and the empty string is falsy too.\<close>

definition combine_if_both :: "(real \<Rightarrow> real) \<Rightarrow> string option \<Rightarrow> string option \<Rightarrow> world \<Rightarrow> world" where
  "combine_if_both rnd user_audio_path agent_audio_path w =
     (case (user_audio_path, agent_audio_path) of
        (Some up, Some ap) \<Rightarrow>
          if up \<noteq> [] \<and> ap \<noteq> [] \<and> path_exists w up \<and> path_exists w ap
          then snd (combine_audio_files rnd up ap (py_replace ''user_audio_'' ''call_recording_'' up) w)
          else w
      | _ \<Rightarrow> w)"

definition stop_recording :: "(real \<Rightarrow> real) \<Rightarrow> int \<Rightarrow> int \<Rightarrow> globals_b \<times> world \<Rightarrow> bool \<times> globals_b \<times> world" where
  "stop_recording rnd now1 now2 s =
     (case s of (g0, w0) \<Rightarrow>
      (let (stopped1, g1, w1) =
             (case b_conversation_recorder g0 of
                None \<Rightarrow> (False, g0, w0)
              | Some r \<Rightarrow> (True, g0\<lparr>b_conversation_recorder := None\<rparr>, snd (cr_stop now1 now2 r w0)));
           (stopped2, user_audio_path, g2, w2) =
             (case user_audio_recorder g1 of
                None \<Rightarrow> (stopped1, None, g1, w1)
              | Some r \<Rightarrow> (True, Some (ar_filepath r), g1\<lparr>user_audio_recorder := None\<rparr>,
                           snd (ar_stop rnd r w1)));
           (stopped, agent_audio_path, g3, w3) =
             (case agent_audio_recorder g2 of
                None \<Rightarrow> (stopped2, None, g2, w2)
              | Some r \<Rightarrow> (True, Some (ar_filepath r), g2\<lparr>agent_audio_recorder := None\<rparr>,
                           snd (ar_stop rnd r w2)));
           w4 = combine_if_both rnd user_audio_path agent_audio_path w3
       in (stopped, g3, if stopped then w4 else print NoActiveRecording w4)))"

section \<open>The provisioning CLI (sip-config/sip_manager.py)\<close>

text \<open>The payloads of the creation requests and the objects the control plane answers with.\<close>

record inbound_trunk_info =
  iti_name :: string
  iti_numbers :: "string list"
  iti_allowed_addresses :: "string list"

record outbound_trunk_info =
  oti_name :: string
  oti_address :: string
  oti_numbers :: "string list"
  oti_auth_username :: string
  oti_auth_password :: string

record dispatch_rule_request =
  drr_name :: string
  drr_trunk_ids :: "string list"
  drr_room_prefix :: string

record inbound_trunk =
  it_sip_trunk_id :: string
  it_name :: string
  it_numbers :: "string list"

record outbound_trunk =
  ot_sip_trunk_id :: string
  ot_name :: string
  ot_address :: string
  ot_numbers :: "string list"

record dispatch_rule_info =
  dr_sip_dispatch_rule_id :: string
  dr_name :: string
  dr_trunk_ids :: "string list"
  dr_rule :: string

datatype request =
    ListSIPInboundTrunkRequest
  | ListSIPOutboundTrunkRequest
  | ListSIPDispatchRuleRequest
  | CreateSIPInboundTrunkRequest inbound_trunk_info
  | CreateSIPOutboundTrunkRequest outbound_trunk_info
  | CreateSIPDispatchRuleRequest dispatch_rule_request
  | DeleteSIPTrunkRequest string
  | DeleteSIPDispatchRuleRequest string

text \<open>
  The control plane is external: each call either raises (\<open>Inl\<close>) or answers. Any behaviour
  of it is a value of this record.
\<close>

record control_plane =
  list_sip_inbound_trunk :: "py_error + inbound_trunk list"
  list_sip_outbound_trunk :: "py_error + outbound_trunk list"
  list_sip_dispatch_rule :: "py_error + dispatch_rule_info list"
  create_sip_inbound_trunk :: "inbound_trunk_info \<Rightarrow> py_error + inbound_trunk"
  create_sip_outbound_trunk :: "outbound_trunk_info \<Rightarrow> py_error + outbound_trunk"
  create_sip_dispatch_rule :: "dispatch_rule_request \<Rightarrow> py_error + dispatch_rule_info"
  delete_sip_trunk :: "string \<Rightarrow> py_error + unit"
  delete_sip_dispatch_rule :: "string \<Rightarrow> py_error + unit"

text \<open>A printed line: plain text, or a label followed by the rendering of a list of strings.\<close>

datatype sip_line = Text string | ListField string "string list"

text \<open>
  What an operation does, in order: a client is created (numbered by creation), a request is
  sent, a client is closed, a line is printed.
\<close>

datatype sip_event = Opened nat | Called request | Closed nat | Printed sip_line

record cli =
  clients_opened :: nat
  events :: "sip_event list"

definition emit :: "sip_event \<Rightarrow> cli \<Rightarrow> cli" where
  "emit e c = c\<lparr>events := events c @ [e]\<rparr>"

definition sip_print :: "sip_line list \<Rightarrow> cli \<Rightarrow> cli" where
  "sip_print ls c = c\<lparr>events := events c @ map Printed ls\<rparr>"

definition LiveKitAPI :: "cli \<Rightarrow> nat \<times> cli" where
  "LiveKitAPI c =
     (clients_opened c, c\<lparr>clients_opened := Suc (clients_opened c),
                           events := events c @ [Opened (clients_opened c)]\<rparr>)"

definition aclose :: "nat \<Rightarrow> cli \<Rightarrow> cli" where
  "aclose lk c = emit (Closed lk) c"

definition newline :: string where
  "newline = [CHR 0x0A]"

definition inbound_lines :: "inbound_trunk \<Rightarrow> sip_line list" where
  "inbound_lines trunk =
     [Text (''  ID: '' @ it_sip_trunk_id trunk), Text (''  Name: '' @ it_name trunk),
      ListField ''  Numbers: '' (it_numbers trunk), Text []]"

definition outbound_lines :: "outbound_trunk \<Rightarrow> sip_line list" where
  "outbound_lines trunk =
     [Text (''  ID: '' @ ot_sip_trunk_id trunk), Text (''  Name: '' @ ot_name trunk),
      Text (''  Address: '' @ ot_address trunk), ListField ''  Numbers: '' (ot_numbers trunk), Text []]"

definition rule_lines :: "dispatch_rule_info \<Rightarrow> sip_line list" where
  "rule_lines rule =
     [Text (''  ID: '' @ dr_sip_dispatch_rule_id rule), Text (''  Name: '' @ dr_name rule),
      ListField ''  Trunk IDs: '' (dr_trunk_ids rule), Text (''  Rule: '' @ dr_rule rule), Text []]"

definition list_sip_trunks :: "control_plane \<Rightarrow> cli \<Rightarrow> (py_error + unit) \<times> cli" where
  "list_sip_trunks cp c0 =
     (case LiveKitAPI c0 of (lk, c1) \<Rightarrow>
      (let c2 = emit (Called ListSIPInboundTrunkRequest)
                  (sip_print [Text (newline @ ''=== Inbound SIP Trunks ==='')] c1)
       in case list_sip_inbound_trunk cp of
            Inl e \<Rightarrow> (Inl e, c2)
          | Inr inbound_trunks \<Rightarrow>
              (let c3 = sip_print (concat (map inbound_lines inbound_trunks)) c2;
                   c4 = emit (Called ListSIPOutboundTrunkRequest)
                          (sip_print [Text (newline @ ''=== Outbound SIP Trunks ==='')] c3)
               in case list_sip_outbound_trunk cp of
                    Inl e \<Rightarrow> (Inl e, c4)
                  | Inr outbound_trunks \<Rightarrow>
                      (Inr (), aclose lk (sip_print (concat (map outbound_lines outbound_trunks)) c4)))))"

definition list_dispatch_rules :: "control_plane \<Rightarrow> cli \<Rightarrow> (py_error + unit) \<times> cli" where
  "list_dispatch_rules cp c0 =
     (case LiveKitAPI c0 of (lk, c1) \<Rightarrow>
      (let c2 = emit (Called ListSIPDispatchRuleRequest)
                  (sip_print [Text (newline @ ''=== SIP Dispatch Rules ==='')] c1)
       in case list_sip_dispatch_rule cp of
            Inl e \<Rightarrow> (Inl e, c2)
          | Inr rules \<Rightarrow> (Inr (), aclose lk (sip_print (concat (map rule_lines rules)) c2))))"

text \<open>\<^verbatim>\<open>allowed_addresses or []\<close>: \<open>None\<close> and the empty list both give the empty list.\<close>

definition create_inbound_trunk :: "control_plane \<Rightarrow> string \<Rightarrow> string list \<Rightarrow> string list option \<Rightarrow> cli \<Rightarrow> (py_error + inbound_trunk) \<times> cli" where
  "create_inbound_trunk cp name numbers allowed_addresses c0 =
     (case LiveKitAPI c0 of (lk, c1) \<Rightarrow>
      (let request = \<lparr>iti_name = name, iti_numbers = numbers,
                      iti_allowed_addresses = (case allowed_addresses of None \<Rightarrow> [] | Some a \<Rightarrow> a)\<rparr>;
           c2 = emit (Called (CreateSIPInboundTrunkRequest request)) c1
       in case create_sip_inbound_trunk cp request of
            Inl e \<Rightarrow> (Inl e, c2)
          | Inr trunk \<Rightarrow>
              (Inr trunk, aclose lk
                 (sip_print [Text (''Created inbound trunk: '' @ it_sip_trunk_id trunk)] c2))))"

text \<open>\<^verbatim>\<open>auth_username or ""\<close>: \<open>None\<close> and the empty string both give the empty string.\<close>

definition create_outbound_trunk :: "control_plane \<Rightarrow> string \<Rightarrow> string \<Rightarrow> string list \<Rightarrow> string option \<Rightarrow> string option \<Rightarrow> cli \<Rightarrow> (py_error + outbound_trunk) \<times> cli" where
  "create_outbound_trunk cp name address numbers auth_username auth_password c0 =
     (case LiveKitAPI c0 of (lk, c1) \<Rightarrow>
      (let request = \<lparr>oti_name = name, oti_address = address, oti_numbers = numbers,
                      oti_auth_username = (case auth_username of None \<Rightarrow> [] | Some u \<Rightarrow> u),
                      oti_auth_password = (case auth_password of None \<Rightarrow> [] | Some p \<Rightarrow> p)\<rparr>;
           c2 = emit (Called (CreateSIPOutboundTrunkRequest request)) c1
       in case create_sip_outbound_trunk cp request of
            Inl e \<Rightarrow> (Inl e, c2)
          | Inr trunk \<Rightarrow>
              (Inr trunk, aclose lk
                 (sip_print [Text (''Created outbound trunk: '' @ ot_sip_trunk_id trunk)] c2))))"

definition create_dispatch_rule :: "control_plane \<Rightarrow> string \<Rightarrow> string \<Rightarrow> string list option \<Rightarrow> cli \<Rightarrow> (py_error + dispatch_rule_info) \<times> cli" where
  "create_dispatch_rule cp name room_prefix trunk_ids c0 =
     (case LiveKitAPI c0 of (lk, c1) \<Rightarrow>
      (let request = \<lparr>drr_name = name,
                      drr_trunk_ids = (case trunk_ids of None \<Rightarrow> [] | Some t \<Rightarrow> t),
                      drr_room_prefix = room_prefix\<rparr>;
           c2 = emit (Called (CreateSIPDispatchRuleRequest request)) c1
       in case create_sip_dispatch_rule cp request of
            Inl e \<Rightarrow> (Inl e, c2)
          | Inr rule \<Rightarrow>
              (Inr rule, aclose lk
                 (sip_print [Text (''Created dispatch rule: '' @ dr_sip_dispatch_rule_id rule)] c2))))"

definition delete_inbound_trunk :: "control_plane \<Rightarrow> string \<Rightarrow> cli \<Rightarrow> (py_error + unit) \<times> cli" where
  "delete_inbound_trunk cp trunk_id c0 =
     (case LiveKitAPI c0 of (lk, c1) \<Rightarrow>
      (let c2 = emit (Called (DeleteSIPTrunkRequest trunk_id)) c1
       in case delete_sip_trunk cp trunk_id of
            Inl e \<Rightarrow> (Inl e, c2)
          | Inr u \<Rightarrow> (Inr (), aclose lk (sip_print [Text (''Deleted trunk: '' @ trunk_id)] c2))))"

definition delete_dispatch_rule :: "control_plane \<Rightarrow> string \<Rightarrow> cli \<Rightarrow> (py_error + unit) \<times> cli" where
  "delete_dispatch_rule cp rule_id c0 =
     (case LiveKitAPI c0 of (lk, c1) \<Rightarrow>
      (let c2 = emit (Called (DeleteSIPDispatchRuleRequest rule_id)) c1
       in case delete_sip_dispatch_rule cp rule_id of
            Inl e \<Rightarrow> (Inl e, c2)
          | Inr u \<Rightarrow> (Inr (), aclose lk (sip_print [Text (''Deleted dispatch rule: '' @ rule_id)] c2))))"

definition setup_twilio_trunk :: "control_plane \<Rightarrow> string \<Rightarrow> string \<Rightarrow> string option \<Rightarrow> string option \<Rightarrow> cli \<Rightarrow> (py_error + inbound_trunk \<times> outbound_trunk \<times> dispatch_rule_info) \<times> cli" where
  "setup_twilio_trunk cp phone_number twilio_domain twilio_username twilio_password c0 =
     (let c1 = sip_print [Text ''Setting up Twilio SIP Trunk...''] c0
      in case create_inbound_trunk cp ''Twilio Inbound'' [phone_number] None c1 of
           (Inl e, c2) \<Rightarrow> (Inl e, c2)
         | (Inr inbound, c2) \<Rightarrow>
        (case create_outbound_trunk cp ''Twilio Outbound'' twilio_domain [phone_number]
                twilio_username twilio_password c2 of
           (Inl e, c3) \<Rightarrow> (Inl e, c3)
         | (Inr outbound, c3) \<Rightarrow>
        (case create_dispatch_rule cp ''Voice Agent Dispatch'' ''call-''
                (Some [it_sip_trunk_id inbound]) c3 of
           (Inl e, c4) \<Rightarrow> (Inl e, c4)
         | (Inr rule, c4) \<Rightarrow>
             (Inr (inbound, outbound, rule),
              sip_print [Text (newline @ ''=== Setup Complete ===''),
                         Text (''Inbound Trunk ID: '' @ it_sip_trunk_id inbound),
                         Text (''Outbound Trunk ID: '' @ ot_sip_trunk_id outbound),
                         Text (''Dispatch Rule ID: '' @ dr_sip_dispatch_rule_id rule)] c4))))"

text \<open>
  \<^verbatim>\<open>str.lower()\<close> on code points below 256: the ASCII capitals and the Latin-1 capitals
  (all of 192 to 222 but the multiplication sign) move up by 32.
\<close>

definition py_lower_char :: "char \<Rightarrow> char" where
  "py_lower_char c =
     (let n = (of_char c :: nat)
      in if (65 \<le> n \<and> n \<le> 90) \<or> (192 \<le> n \<and> n \<le> 222 \<and> n \<noteq> 215) then char_of (n + 32) else c)"

definition py_lower :: "string \<Rightarrow> string" where
  "py_lower s = map py_lower_char s"

text \<open>
  The command dispatch (lines 182-219). \<open>argv\<close> is \<^verbatim>\<open>sys.argv\<close>; \<open>answers\<close> are the lines the
  operator types, one per \<^verbatim>\<open>input()\<close>, which raises EOFError when none is left.
  \<^verbatim>\<open>input(...) or None\<close> turns an empty answer into \<open>None\<close>.
\<close>

definition or_none :: "string \<Rightarrow> string option" where
  "or_none s = (if s = [] then None else Some s)"

definition usage :: string where
  "usage =
     newline @ ''LiveKit SIP Management Script'' @ newline @ newline @ ''Usage:'' @ newline
     @ ''    python sip_manager.py list           - List all trunks and rules'' @ newline
     @ ''    python sip_manager.py setup          - Interactive setup for Twilio'' @ newline
     @ ''    python sip_manager.py delete-all     - Delete all trunks and rules'' @ newline
     @ ''        ''"

definition main :: "control_plane \<Rightarrow> string list \<Rightarrow> string list \<Rightarrow> cli \<Rightarrow> (py_error + unit) \<times> cli" where
  "main cp argv answers c =
     (if length argv < 2 then (Inr (), sip_print [Text usage] c)
      else
        (let command = argv ! 1
         in if command = ''list''
            then (case list_sip_trunks cp c of
                    (Inl e, c1) \<Rightarrow> (Inl e, c1)
                  | (Inr u, c1) \<Rightarrow> list_dispatch_rules cp c1)
            else if command = ''setup''
            then (let c1 = sip_print [Text ''Twilio SIP Trunk Setup''] c
                  in case answers of
                       phone # domain # username # password # rest \<Rightarrow>
                         (case setup_twilio_trunk cp phone domain (or_none username) (or_none password) c1 of
                            (Inl e, c2) \<Rightarrow> (Inl e, c2)
                          | (Inr r, c2) \<Rightarrow> (Inr (), c2))
                     | _ \<Rightarrow> (Inl EOFError, c1))
            else if command = ''delete-all''
            then (case answers of
                    [] \<Rightarrow> (Inl EOFError, c)
                  | confirm # rest \<Rightarrow>
                      if py_lower confirm = ''yes''
                      then (case list_sip_trunks cp c of
                              (Inl e, c1) \<Rightarrow> (Inl e, c1)
                            | (Inr u, c1) \<Rightarrow>
                                (Inr (), sip_print
                                   [Text ''Deletion not implemented - use lk.exe CLI to delete individual items''] c1))
                      else (Inr (), c))
            else (Inr (), sip_print [Text (''Unknown command: '' @ command)] c)))"

text \<open>The operations as the operator can request them, the result value dropped.\<close>

datatype cli_op =
    ListTrunks
  | ListRules
  | CreateInbound string "string list" "string list option"
  | CreateOutbound string string "string list" "string option" "string option"
  | CreateRule string string "string list option"
  | DeleteTrunk string
  | DeleteRule string
  | Setup string string "string option" "string option"

definition outcome :: "(py_error + 'a) \<times> cli \<Rightarrow> (py_error + unit) \<times> cli" where
  "outcome r = (case r of (Inl e, c) \<Rightarrow> (Inl e, c) | (Inr x, c) \<Rightarrow> (Inr (), c))"

fun run_op :: "control_plane \<Rightarrow> cli_op \<Rightarrow> cli \<Rightarrow> (py_error + unit) \<times> cli" where
  "run_op cp ListTrunks c = list_sip_trunks cp c"
| "run_op cp ListRules c = list_dispatch_rules cp c"
| "run_op cp (CreateInbound name numbers allowed) c = outcome (create_inbound_trunk cp name numbers allowed c)"
| "run_op cp (CreateOutbound name address numbers u p) c =
     outcome (create_outbound_trunk cp name address numbers u p c)"
| "run_op cp (CreateRule name room_prefix trunk_ids) c = outcome (create_dispatch_rule cp name room_prefix trunk_ids c)"
| "run_op cp (DeleteTrunk trunk_id) c = delete_inbound_trunk cp trunk_id c"
| "run_op cp (DeleteRule rule_id) c = delete_dispatch_rule cp rule_id c"
| "run_op cp (Setup phone domain u p) c = outcome (setup_twilio_trunk cp phone domain u p c)"

text \<open>The events an operation added, the requests among events, and the clients left open.\<close>

definition new_events :: "cli \<Rightarrow> cli \<Rightarrow> sip_event list" where
  "new_events c c' = drop (length (events c)) (events c')"

fun requests :: "sip_event list \<Rightarrow> request list" where
  "requests [] = []"
| "requests (Called r # es) = r # requests es"
| "requests (e # es) = requests es"

fun opened_clients :: "sip_event list \<Rightarrow> nat list" where
  "opened_clients [] = []"
| "opened_clients (Opened k # es) = k # opened_clients es"
| "opened_clients (e # es) = opened_clients es"

fun closed_clients :: "sip_event list \<Rightarrow> nat list" where
  "closed_clients [] = []"
| "closed_clients (Closed k # es) = k # closed_clients es"
| "closed_clients (e # es) = closed_clients es"

definition left_open :: "sip_event list \<Rightarrow> nat list" where
  "left_open es = filter (\<lambda>k. k \<notin> set (closed_clients es)) (opened_clients es)"

fun is_delete :: "request \<Rightarrow> bool" where
  "is_delete (DeleteSIPTrunkRequest t) = True"
| "is_delete (DeleteSIPDispatchRuleRequest r) = True"
| "is_delete _ = False"

fun is_list :: "request \<Rightarrow> bool" where
  "is_list ListSIPInboundTrunkRequest = True"
| "is_list ListSIPOutboundTrunkRequest = True"
| "is_list ListSIPDispatchRuleRequest = True"
| "is_list _ = False"

section \<open>The weather tool (agent.py 139-209, 251-302; the same text in agent1.py)\<close>

text \<open>
  What \<^verbatim>\<open>response.json()\<close> returns: a Python value built from \<open>None\<close>, booleans, numbers,
  strings, lists and dictionaries with string keys.
\<close>

datatype json =
    JNull
  | JBool bool
  | JInt int
  | JFloat real
  | JStr string
  | JList "json list"
  | JDict "(string \<times> json) list"

text \<open>Truth value testing (\<^verbatim>\<open>if data:\<close>, \<^verbatim>\<open>if not geo_data:\<close>).\<close>

fun py_truthy :: "json \<Rightarrow> bool" where
  "py_truthy JNull = False"
| "py_truthy (JBool b) = b"
| "py_truthy (JInt n) = (n \<noteq> 0)"
| "py_truthy (JFloat x) = (x \<noteq> 0)"
| "py_truthy (JStr s) = (s \<noteq> [])"
| "py_truthy (JList xs) = (xs \<noteq> [])"
| "py_truthy (JDict kvs) = (kvs \<noteq> [])"

text \<open>\<^verbatim>\<open>d.get(key, dflt)\<close>: only a dictionary has the method.\<close>

fun py_get :: "json \<Rightarrow> string \<Rightarrow> json \<Rightarrow> py_error + json" where
  "py_get (JDict kvs) key dflt = Inr (case map_of kvs key of None \<Rightarrow> dflt | Some v \<Rightarrow> v)"
| "py_get _ key dflt = Inl AttributeError"

text \<open>\<^verbatim>\<open>x[key]\<close> with a string key.\<close>

fun py_getitem_str :: "json \<Rightarrow> string \<Rightarrow> py_error + json" where
  "py_getitem_str (JDict kvs) key = (case map_of kvs key of None \<Rightarrow> Inl KeyError | Some v \<Rightarrow> Inr v)"
| "py_getitem_str _ key = Inl TypeError"

text \<open>
  \<^verbatim>\<open>x[i]\<close> with an integer: an element of a list, a character of a string; a dictionary has
  string keys only, so the key is missing; nothing else can be subscripted.
\<close>

fun py_getitem_int :: "json \<Rightarrow> int \<Rightarrow> py_error + json" where
  "py_getitem_int (JList xs) i = py_index xs i"
| "py_getitem_int (JStr s) i = (case py_index s i of Inl e \<Rightarrow> Inl e | Inr c \<Rightarrow> Inr (JStr [c]))"
| "py_getitem_int (JDict kvs) i = Inl KeyError"
| "py_getitem_int _ i = Inl TypeError"

fun py_len :: "json \<Rightarrow> py_error + nat" where
  "py_len (JList xs) = Inr (length xs)"
| "py_len (JStr s) = Inr (length s)"
| "py_len (JDict kvs) = Inr (length kvs)"
| "py_len _ = Inl TypeError"

text \<open>Whether \<open>p\<close> occurs in \<open>s\<close> as a contiguous piece.\<close>

fun occurs_in :: "string \<Rightarrow> string \<Rightarrow> bool" where
  "occurs_in p [] = (p = [])"
| "occurs_in p (c # cs) = (take (length p) (c # cs) = p \<or> occurs_in p cs)"

text \<open>\<^verbatim>\<open>key in x\<close> with a string key: a key of a dictionary, an element of a list, a piece of a string.\<close>

fun py_contains :: "string \<Rightarrow> json \<Rightarrow> py_error + bool" where
  "py_contains key (JDict kvs) = Inr (map_of kvs key \<noteq> None)"
| "py_contains key (JList xs) = Inr (JStr key \<in> set xs)"
| "py_contains key (JStr s) = Inr (occurs_in key s)"
| "py_contains key _ = Inl TypeError"

definition WEATHER_CODES :: "(int \<times> string) list" where
  "WEATHER_CODES =
     [(0, ''clear sky''), (1, ''mainly clear''), (2, ''partly cloudy''), (3, ''overcast''),
      (45, ''foggy''), (48, ''depositing rime fog''), (51, ''light drizzle''),
      (53, ''moderate drizzle''), (55, ''dense drizzle''), (61, ''slight rain''),
      (63, ''moderate rain''), (65, ''heavy rain''), (71, ''slight snow''),
      (73, ''moderate snow''), (75, ''heavy snow''), (77, ''snow grains''),
      (80, ''slight rain showers''), (81, ''moderate rain showers''),
      (82, ''violent rain showers''), (85, ''slight snow showers''),
      (86, ''heavy snow showers''), (95, ''thunderstorm''),
      (96, ''thunderstorm with slight hail''), (99, ''thunderstorm with heavy hail'')]"

definition code_or :: "string \<Rightarrow> int \<Rightarrow> string" where
  "code_or dflt n = (case map_of WEATHER_CODES n of None \<Rightarrow> dflt | Some s \<Rightarrow> s)"

text \<open>
  \<^verbatim>\<open>WEATHER_CODES.get(key, dflt)\<close>: the key is hashed, which a list or a dictionary
  refuses; a boolean or a float equal to an integer finds that integer's entry.
\<close>

fun weather_codes_get :: "json \<Rightarrow> string \<Rightarrow> py_error + string" where
  "weather_codes_get (JInt n) dflt = Inr (code_or dflt n)"
| "weather_codes_get (JBool b) dflt = Inr (code_or dflt (if b then 1 else 0))"
| "weather_codes_get (JFloat x) dflt =
     Inr (if x = real_of_int \<lfloor>x\<rfloor> then code_or dflt \<lfloor>x\<rfloor> else dflt)"
| "weather_codes_get (JList xs) dflt = Inl TypeError"
| "weather_codes_get (JDict kvs) dflt = Inl TypeError"
| "weather_codes_get _ dflt = Inr dflt"

text \<open>Decimal digits of a natural number, and \<^verbatim>\<open>str\<close> of an integer.\<close>

fun digits :: "nat \<Rightarrow> string" where
  "digits n =
     (if n < 10 then [''0123456789'' ! n] else digits (n div 10) @ [''0123456789'' ! (n mod 10)])"

definition str_int :: "int \<Rightarrow> string" where
  "str_int n = (if n < 0 then ''-'' @ digits (nat (- n)) else digits (nat n))"

text \<open>
  A value inside an f-string. The text of a float and of a container is left to \<open>repr\<close>,
  a parameter; formatting never raises.
\<close>

fun py_format :: "(json \<Rightarrow> string) \<Rightarrow> json \<Rightarrow> string" where
  "py_format repr (JStr s) = s"
| "py_format repr (JInt n) = str_int n"
| "py_format repr JNull = ''None''"
| "py_format repr (JBool b) = (if b then ''True'' else ''False'')"
| "py_format repr v = repr v"

text \<open>
  \<^verbatim>\<open>float(x)\<close>: \<open>parse\<close> is the reading of a numeric string (\<open>None\<close> when the string is not
  numeric, which raises ValueError).
\<close>

fun py_float :: "(string \<Rightarrow> real option) \<Rightarrow> json \<Rightarrow> py_error + real" where
  "py_float parse (JStr s) = (case parse s of None \<Rightarrow> Inl ValueError | Some x \<Rightarrow> Inr x)"
| "py_float parse (JInt n) = Inr (real_of_int n)"
| "py_float parse (JFloat x) = Inr x"
| "py_float parse (JBool b) = Inr (if b then 1 else 0)"
| "py_float parse _ = Inl TypeError"

text \<open>
  An HTTP exchange: the connection fails (aiohttp raises), or a response arrives with a
  status and a body that \<^verbatim>\<open>response.json()\<close> parses or rejects.
\<close>

datatype body = Parsed json | Malformed

datatype http_result = ConnectionFailed | Response nat body

record geo_data =
  lat :: real
  lon :: real
  display_name :: json

definition geocode_location :: "(string \<Rightarrow> real option) \<Rightarrow> (string \<Rightarrow> http_result) \<Rightarrow> string \<Rightarrow> py_error + geo_data option" where
  "geocode_location parse geocoder location =
     (case geocoder location of
        ConnectionFailed \<Rightarrow> Inl ClientError
      | Response status b \<Rightarrow>
          if status = 200
          then (case b of
                  Malformed \<Rightarrow> Inl ContentTypeError
                | Parsed data \<Rightarrow>
                    if py_truthy data
                    then (case py_getitem_int data 0 of
                            Inl e \<Rightarrow> Inl e
                          | Inr first \<Rightarrow>
                         (case py_getitem_str first ''lat'' of
                            Inl e \<Rightarrow> Inl e
                          | Inr lat_v \<Rightarrow>
                         (case py_float parse lat_v of
                            Inl e \<Rightarrow> Inl e
                          | Inr lat_f \<Rightarrow>
                         (case py_getitem_str first ''lon'' of
                            Inl e \<Rightarrow> Inl e
                          | Inr lon_v \<Rightarrow>
                         (case py_float parse lon_v of
                            Inl e \<Rightarrow> Inl e
                          | Inr lon_f \<Rightarrow>
                         (case py_getitem_str first ''display_name'' of
                            Inl e \<Rightarrow> Inl e
                          | Inr name \<Rightarrow>
                              Inr (Some \<lparr>lat = lat_f, lon = lon_f, display_name = name\<rparr>)))))))
                    else Inr None)
          else Inr None)"

definition get_weather_data :: "(real \<Rightarrow> real \<Rightarrow> http_result) \<Rightarrow> real \<Rightarrow> real \<Rightarrow> py_error + json option" where
  "get_weather_data forecast_api la lo =
     (case forecast_api la lo of
        ConnectionFailed \<Rightarrow> Inl ClientError
      | Response status b \<Rightarrow>
          if status = 200
          then (case b of Malformed \<Rightarrow> Inl ContentTypeError | Parsed data \<Rightarrow> Inr (Some data))
          else Inr None)"

definition quote :: string where
  "quote = [CHR 0x27]"

definition not_found_apology :: "string \<Rightarrow> string" where
  "not_found_apology location =
     ''Sorry, I couldn't find the location '' @ quote @ location @ quote
       @ ''. Please try a different city or place name.''"

definition no_data_apology :: "string \<Rightarrow> string" where
  "no_data_apology location =
     ''Sorry, I couldn't fetch weather data for '' @ location @ ''. Please try again later.''"

text \<open>Line 294, the clause about tomorrow.\<close>

definition tomorrow_clause :: "string \<Rightarrow> string \<Rightarrow> string \<Rightarrow> string \<Rightarrow> string" where
  "tomorrow_clause high low tomorrow_conditions tomorrow_precip =
     '' Tomorrow's forecast: high of '' @ high @ '' degrees, low of '' @ low @ '' degrees, ''
       @ tomorrow_conditions @ '', '' @ tomorrow_precip @ ''% chance of precipitation.''"

text \<open>\<^verbatim>\<open>xs[1] if len(xs) > 1 else 0\<close> (lines 292 and 293).\<close>

definition second_or_zero :: "json \<Rightarrow> py_error + json" where
  "second_or_zero xs =
     (case py_len xs of
        Inl e \<Rightarrow> Inl e
      | Inr n \<Rightarrow> if n > 1 then py_getitem_int xs 1 else Inr (JInt 0))"

text \<open>Lines 284-294: \<^verbatim>\<open>forecast_info\<close>, from the daily block.\<close>

definition forecast_info :: "(json \<Rightarrow> string) \<Rightarrow> json \<Rightarrow> py_error + string" where
  "forecast_info repr daily =
     (if \<not> py_truthy daily then Inr []
      else case py_contains ''time'' daily of
             Inl e \<Rightarrow> Inl e
           | Inr False \<Rightarrow> Inr []
           | Inr True \<Rightarrow>
          (case py_get daily ''temperature_2m_max'' (JList []) of
             Inl e \<Rightarrow> Inl e
           | Inr temps_max \<Rightarrow>
          (case py_get daily ''temperature_2m_min'' (JList []) of
             Inl e \<Rightarrow> Inl e
           | Inr temps_min \<Rightarrow>
          (case py_get daily ''precipitation_probability_max'' (JList []) of
             Inl e \<Rightarrow> Inl e
           | Inr precip_prob \<Rightarrow>
          (case py_get daily ''weather_code'' (JList []) of
             Inl e \<Rightarrow> Inl e
           | Inr daily_codes \<Rightarrow>
          (case py_len temps_max of
             Inl e \<Rightarrow> Inl e
           | Inr n \<Rightarrow>
               if n \<ge> 2
               then (case second_or_zero daily_codes of
                       Inl e \<Rightarrow> Inl e
                     | Inr code \<Rightarrow>
                    (case weather_codes_get code ''unknown'' of
                       Inl e \<Rightarrow> Inl e
                     | Inr tomorrow_conditions \<Rightarrow>
                    (case second_or_zero precip_prob of
                       Inl e \<Rightarrow> Inl e
                     | Inr tomorrow_precip \<Rightarrow>
                    (case py_getitem_int temps_max 1 of
                       Inl e \<Rightarrow> Inl e
                     | Inr high \<Rightarrow>
                    (case py_getitem_int temps_min 1 of
                       Inl e \<Rightarrow> Inl e
                     | Inr low \<Rightarrow>
                         Inr (tomorrow_clause (py_format repr high) (py_format repr low)
                                tomorrow_conditions (py_format repr tomorrow_precip)))))))
               else Inr []))))))"

text \<open>Lines 276-281: the fields of the current block and the name of the conditions.\<close>

definition current_fields :: "json \<Rightarrow> py_error + (json \<times> json \<times> json \<times> json \<times> string)" where
  "current_fields current =
     (case py_get current ''temperature_2m'' (JStr ''N/A'') of
        Inl e \<Rightarrow> Inl e
      | Inr temp \<Rightarrow>
     (case py_get current ''apparent_temperature'' (JStr ''N/A'') of
        Inl e \<Rightarrow> Inl e
      | Inr feels_like \<Rightarrow>
     (case py_get current ''relative_humidity_2m'' (JStr ''N/A'') of
        Inl e \<Rightarrow> Inl e
      | Inr humidity \<Rightarrow>
     (case py_get current ''wind_speed_10m'' (JStr ''N/A'') of
        Inl e \<Rightarrow> Inl e
      | Inr wind_speed \<Rightarrow>
     (case py_get current ''weather_code'' (JInt 0) of
        Inl e \<Rightarrow> Inl e
      | Inr weather_code \<Rightarrow>
     (case weather_codes_get weather_code ''unknown conditions'' of
        Inl e \<Rightarrow> Inl e
      | Inr conditions \<Rightarrow> Inr (temp, feels_like, humidity, wind_speed, conditions)))))))"

text \<open>Lines 300-301: the sentence about the current weather, without the forecast.\<close>

definition current_sentence :: "(json \<Rightarrow> string) \<Rightarrow> string \<Rightarrow> json \<times> json \<times> json \<times> json \<times> string \<Rightarrow> string" where
  "current_sentence repr short_location parts =
     (case parts of (temp, feels_like, humidity, wind_speed, conditions) \<Rightarrow>
        ''Current weather in '' @ short_location @ '': '' @ py_format repr temp
        @ '' degrees Celsius, feels like '' @ py_format repr feels_like @ '' degrees. ''
        @ ''Conditions: '' @ conditions @ ''. Humidity: '' @ py_format repr humidity
        @ ''%. Wind speed: '' @ py_format repr wind_speed @ '' kilometers per hour.'')"

text \<open>\<^verbatim>\<open>geo_data["display_name"].split(",")[0]\<close>: only a string has the method.\<close>

fun short_name :: "json \<Rightarrow> py_error + string" where
  "short_name (JStr s) = Inr (takeWhile (\<lambda>c. c \<noteq> CHR '','') s)"
| "short_name _ = Inl AttributeError"

text \<open>Lines 272-302, once both providers have answered, in the order of the source.\<close>

definition weather_report :: "(json \<Rightarrow> string) \<Rightarrow> json \<Rightarrow> json \<Rightarrow> py_error + string" where
  "weather_report repr name weather_data =
     (case py_get weather_data ''current'' (JDict []) of
        Inl e \<Rightarrow> Inl e
      | Inr current \<Rightarrow>
     (case py_get weather_data ''daily'' (JDict []) of
        Inl e \<Rightarrow> Inl e
      | Inr daily \<Rightarrow>
     (case current_fields current of
        Inl e \<Rightarrow> Inl e
      | Inr parts \<Rightarrow>
     (case forecast_info repr daily of
        Inl e \<Rightarrow> Inl e
      | Inr info \<Rightarrow>
     (case short_name name of
        Inl e \<Rightarrow> Inl e
      | Inr short_location \<Rightarrow> Inr (current_sentence repr short_location parts @ info))))))"

definition get_weather :: "(json \<Rightarrow> string) \<Rightarrow> (string \<Rightarrow> real option) \<Rightarrow> (string \<Rightarrow> http_result) \<Rightarrow> (real \<Rightarrow> real \<Rightarrow> http_result) \<Rightarrow> string \<Rightarrow> py_error + string" where
  "get_weather repr parse geocoder forecast_api location =
     (case geocode_location parse geocoder location of
        Inl e \<Rightarrow> Inl e
      | Inr None \<Rightarrow> Inr (not_found_apology location)
      | Inr (Some geo) \<Rightarrow>
          (case get_weather_data forecast_api (lat geo) (lon geo) of
             Inl e \<Rightarrow> Inl e
           | Inr None \<Rightarrow> Inr (no_data_apology location)
           | Inr (Some weather_data) \<Rightarrow>
               if \<not> py_truthy weather_data then Inr (no_data_apology location)
               else weather_report repr (display_name geo) weather_data))"

text \<open>
  The shape of a forecast payload that the tool formats without raising: a dictionary whose
  current block, if present, is a dictionary with a hashable weather code, and whose daily
  block, if present, is a dictionary whose four arrays are lists (or absent), with hashable
  codes and with a second minimum whenever there is a second maximum.
\<close>

definition hashable :: "json \<Rightarrow> bool" where
  "hashable v = (case v of JList xs \<Rightarrow> False | JDict kvs \<Rightarrow> False | _ \<Rightarrow> True)"

definition list_or_absent :: "json option \<Rightarrow> bool" where
  "list_or_absent v = (case v of None \<Rightarrow> True | Some (JList xs) \<Rightarrow> True | _ \<Rightarrow> False)"

definition entries :: "json option \<Rightarrow> json list" where
  "entries v = (case v of Some (JList xs) \<Rightarrow> xs | _ \<Rightarrow> [])"

definition daily_shape :: "(string \<times> json) list \<Rightarrow> bool" where
  "daily_shape dl =
     (list_or_absent (map_of dl ''temperature_2m_max'')
      \<and> list_or_absent (map_of dl ''temperature_2m_min'')
      \<and> list_or_absent (map_of dl ''precipitation_probability_max'')
      \<and> list_or_absent (map_of dl ''weather_code'')
      \<and> (length (entries (map_of dl ''temperature_2m_max'')) < 2
           \<or> 2 \<le> length (entries (map_of dl ''temperature_2m_min'')))
      \<and> list_all hashable (entries (map_of dl ''weather_code'')))"

definition expected_shape :: "json \<Rightarrow> bool" where
  "expected_shape weather_data =
     (case weather_data of
        JDict kvs \<Rightarrow>
          (case map_of kvs ''current'' of
             None \<Rightarrow> True
           | Some (JDict c) \<Rightarrow> (case map_of c ''weather_code'' of None \<Rightarrow> True | Some v \<Rightarrow> hashable v)
           | Some _ \<Rightarrow> False)
          \<and> (case map_of kvs ''daily'' of
                None \<Rightarrow> True
              | Some (JDict dl) \<Rightarrow> daily_shape dl
              | Some _ \<Rightarrow> False)
      | _ \<Rightarrow> False)"

section \<open>Concrete inputs\<close>

text \<open>A world with no files in which every path can be written, and exact arithmetic as rounding.\<close>

definition quiet_world :: world where
  "quiet_world = \<lparr>files = Map.empty, writable = (\<lambda>p. True), console = [], stop_calls = []\<rparr>"

definition exact :: "real \<Rightarrow> real" where
  "exact x = x"


text \<open>A new process of the CLI, and a control plane that answers every call.\<close>

definition fresh_cli :: cli where
  "fresh_cli = \<lparr>clients_opened = 0, events = []\<rparr>"

definition obliging_plane :: control_plane where
  "obliging_plane =
     \<lparr>list_sip_inbound_trunk = Inr [\<lparr>it_sip_trunk_id = ''ST_in'', it_name = ''Twilio Inbound'', it_numbers = [''+15550100'']\<rparr>],
      list_sip_outbound_trunk = Inr [],
      list_sip_dispatch_rule = Inr [],
      create_sip_inbound_trunk = (\<lambda>i. Inr \<lparr>it_sip_trunk_id = ''ST_in'', it_name = iti_name i, it_numbers = iti_numbers i\<rparr>),
      create_sip_outbound_trunk = (\<lambda>i. Inr \<lparr>ot_sip_trunk_id = ''ST_out'', ot_name = oti_name i,
                                              ot_address = oti_address i, ot_numbers = oti_numbers i\<rparr>),
      create_sip_dispatch_rule = (\<lambda>i. Inr \<lparr>dr_sip_dispatch_rule_id = ''SDR_1'', dr_name = drr_name i,
                                             dr_trunk_ids = drr_trunk_ids i, dr_rule = drr_room_prefix i\<rparr>),
      delete_sip_trunk = (\<lambda>i. Inr ()),
      delete_sip_dispatch_rule = (\<lambda>i. Inr ())\<rparr>"

text \<open>A control plane whose every call raises.\<close>

definition failing_plane :: control_plane where
  "failing_plane =
     \<lparr>list_sip_inbound_trunk = Inl ApiError, list_sip_outbound_trunk = Inl ApiError,
      list_sip_dispatch_rule = Inl ApiError, create_sip_inbound_trunk = (\<lambda>i. Inl ApiError),
      create_sip_outbound_trunk = (\<lambda>i. Inl ApiError), create_sip_dispatch_rule = (\<lambda>i. Inl ApiError),
      delete_sip_trunk = (\<lambda>i. Inl ApiError), delete_sip_dispatch_rule = (\<lambda>i. Inl ApiError)\<rparr>"

text \<open>
  A geocoder that knows Paris, two forecast payloads (the second lacks the key "time" in its
  daily block), a reading of the two coordinate strings, and a \<open>repr\<close> that is never needed
  because the payloads hold integers and strings only.
\<close>

definition parse_known :: "string \<Rightarrow> real option" where
  "parse_known s = (if s = ''48.85'' then Some 48.85 else if s = ''2.35'' then Some 2.35 else None)"

definition no_repr :: "json \<Rightarrow> string" where
  "no_repr v = []"

definition paris_geocoder :: "string \<Rightarrow> http_result" where
  "paris_geocoder q =
     Response 200 (Parsed (JList [JDict
       [(''lat'', JStr ''48.85''), (''lon'', JStr ''2.35''),
        (''display_name'', JStr ''Paris, Ile-de-France, France'')]]))"

definition current_block :: json where
  "current_block =
     JDict [(''temperature_2m'', JInt 18), (''apparent_temperature'', JInt 17),
            (''relative_humidity_2m'', JInt 60), (''wind_speed_10m'', JInt 12),
            (''weather_code'', JInt 2)]"

definition timed_forecast :: json where
  "timed_forecast =
     JDict [(''current'', current_block),
            (''daily'', JDict
               [(''time'', JList [JStr ''2026-01-01'', JStr ''2026-01-02'']),
                (''temperature_2m_max'', JList [JInt 20, JInt 22]),
                (''temperature_2m_min'', JList [JInt 10, JInt 12]),
                (''precipitation_probability_max'', JList [JInt 5, JInt 30]),
                (''weather_code'', JList [JInt 2, JInt 61])])]"

definition untimed_forecast :: json where
  "untimed_forecast =
     JDict [(''current'', current_block),
            (''daily'', JDict
               [(''temperature_2m_max'', JList [JInt 20, JInt 22]),
                (''temperature_2m_min'', JList [JInt 10, JInt 12]),
                (''precipitation_probability_max'', JList [JInt 5, JInt 30]),
                (''weather_code'', JList [JInt 2, JInt 61])])]"

section \<open>Proofs\<close>

lemma dropWhile_all_iff: "(\<forall>x \<in> set (dropWhile P xs). P x) \<longleftrightarrow> (\<forall>x \<in> set xs. P x)"
proof (cases "dropWhile P xs")
  case Nil
  then have "\<forall>x \<in> set xs. P x" by (simp add: dropWhile_eq_Nil_conv)
  then show ?thesis by (auto dest: set_dropWhileD)
next
  case (Cons a as)
  then have "\<not> P a" using hd_dropWhile [of P xs] by simp
  moreover have "a \<in> set xs" using Cons set_dropWhileD [of a P xs] by simp
  ultimately show ?thesis using Cons by auto
qed

lemma strip_Nil_iff: "strip s = [] \<longleftrightarrow> list_all py_isspace s"
  by (simp add: strip_def dropWhile_eq_Nil_conv dropWhile_all_iff list_all_iff)

lemma cr_apply_nonblank:
  "list_all (\<lambda>m. \<not> list_all py_isspace (msg_text m)) (transcript (fst s)) \<Longrightarrow>
   list_all (\<lambda>m. \<not> list_all py_isspace (msg_text m)) (transcript (fst (cr_apply c s)))"
  by (cases c; cases s)
     (auto simp: cr_start_def add_user_message_def add_agent_message_def cr_stop_def Let_def
                 strip_Nil_iff)

lemma cr_run_nonblank:
  "list_all (\<lambda>m. \<not> list_all py_isspace (msg_text m)) (transcript (fst s)) \<Longrightarrow>
   list_all (\<lambda>m. \<not> list_all py_isspace (msg_text m)) (transcript (fst (cr_run calls s)))"
  unfolding cr_run_def
  by (induction calls arbitrary: s) (simp_all add: cr_apply_nonblank)

lemma cr_run_adds:
  "cr_is_recording r \<Longrightarrow> list_all is_add calls \<Longrightarrow>
   cr_is_recording (fst (cr_run calls (r, w))) \<and>
   transcript (fst (cr_run calls (r, w))) = transcript r @ nonblank_entries calls"
  unfolding cr_run_def
proof (induction calls arbitrary: r)
  case Nil
  then show ?case by (simp add: nonblank_entries_def)
next
  case (Cons c calls)
  then show ?case
    by (cases c)
       (auto simp: is_add_def add_user_message_def add_agent_message_def nonblank_entries_def
                  )
qed

text \<open>
  Claim C6. A call of \<open>add_user_message\<close> or \<open>add_agent_message\<close> appends its entry exactly when
  the recorder is active and the text is not blank after \<open>strip\<close> (blank means: every character
  is whitespace); otherwise the transcript is unchanged. Whatever sequence of calls a new recorder
  receives, no message of its transcript has a whitespace-only text; and on an active recorder a
  sequence of add calls leaves the transcript extended by the accepted entries, in call order.
\<close>

theorem transcript_append_iff_nonblank:
  "transcript (add_user_message txt lang now r) =
     (if cr_is_recording r \<and> strip txt \<noteq> []
      then transcript r @ [\<lparr>role = ''user'', msg_text = txt, timestamp = now, language = Some lang\<rparr>]
      else transcript r)
   \<and> transcript (add_agent_message txt now r) =
     (if cr_is_recording r \<and> strip txt \<noteq> []
      then transcript r @ [\<lparr>role = ''assistant'', msg_text = txt, timestamp = now, language = None\<rparr>]
      else transcript r)
   \<and> (strip txt = [] \<longleftrightarrow> list_all py_isspace txt)
   \<and> list_all (\<lambda>m. \<not> list_all py_isspace (msg_text m))
        (transcript (fst (cr_run calls (ConversationRecorder path t0, w))))
   \<and> (cr_is_recording r \<and> list_all is_add calls \<longrightarrow>
        transcript (fst (cr_run calls (r, w))) = transcript r @ nonblank_entries calls)"
  using cr_run_nonblank [of "(ConversationRecorder path t0, w)" calls] cr_run_adds [of r calls w]
  by (simp add: add_user_message_def add_agent_message_def strip_Nil_iff ConversationRecorder_def)


theorem transcript_append_iff_nonblank_witness:
  "cr_is_recording (fst (cr_start 0 (ConversationRecorder ''t.json'' 0) quiet_world))
   \<and> list_all is_add [CAddUser ''hi'' ''en'' 1, CAddAgent '' '' 2, CAddAgent ''yo'' 3]
   \<and> transcript (fst (cr_run [CAddUser ''hi'' ''en'' 1, CAddAgent '' '' 2, CAddAgent ''yo'' 3]
        (fst (cr_start 0 (ConversationRecorder ''t.json'' 0) quiet_world), quiet_world))) =
      transcript (fst (cr_start 0 (ConversationRecorder ''t.json'' 0) quiet_world))
        @ nonblank_entries [CAddUser ''hi'' ''en'' 1, CAddAgent '' '' 2, CAddAgent ''yo'' 3]"
  using transcript_append_iff_nonblank
    [of "'' ''" "''en''" 1 "fst (cr_start 0 (ConversationRecorder ''t.json'' 0) quiet_world)"
        "[CAddUser ''hi'' ''en'' 1, CAddAgent '' '' 2, CAddAgent ''yo'' 3]" "''t.json''" 0 quiet_world]
  by (simp add: cr_start_def is_add_def)






lemma on_shutdown_clears:
  "a_conversation_recorder (fst (on_shutdown rnd n1 n2 s)) = None
   \<and> a_audio_recorder (fst (on_shutdown rnd n1 n2 s)) = None"
  by (cases s)
     (simp add: on_shutdown_def stop_audio_a_def stop_conversation_a_def split: option.splits)

lemma on_shutdown_cleared:
  "a_conversation_recorder (fst s) = None \<Longrightarrow> a_audio_recorder (fst s) = None \<Longrightarrow>
   on_shutdown rnd n1 n2 s = s"
  by (cases s) (simp add: on_shutdown_def stop_audio_a_def stop_conversation_a_def)

lemma cr_stop_calls: "stop_calls (snd (cr_stop n1 n2 r w)) = stop_calls w @ [cr_filepath r]"
  by (simp add: cr_stop_def Let_def print_def)

lemma lar_stop_calls: "stop_calls (snd (lar_stop rnd r w)) = stop_calls w @ [lar_filepath r]"
  by (simp add: lar_stop_def Let_def print_def write_wav_def py_truediv_def
           split: prod.splits sum.splits if_splits)

lemma ar_stop_calls: "stop_calls (snd (ar_stop rnd r w)) = stop_calls w @ [ar_filepath r]"
  by (simp add: ar_stop_def Let_def print_def write_wav_def py_truediv_def
           split: prod.splits sum.splits if_splits option.splits)

lemma on_shutdown_stop_calls:
  "stop_calls (snd (on_shutdown rnd n1 n2 (g, w))) =
     stop_calls w @ map cr_filepath (case_option [] (\<lambda>r. [r]) (a_conversation_recorder g))
                  @ map lar_filepath (case_option [] (\<lambda>r. [r]) (a_audio_recorder g))"
  by (simp add: on_shutdown_def stop_audio_a_def stop_conversation_a_def cr_stop_calls
                lar_stop_calls split: option.splits)

lemma stop_recording_clears:
  "stop_recording rnd n1 n2 s = (b, g, w) \<Longrightarrow>
   b_conversation_recorder g = None \<and> user_audio_recorder g = None \<and> agent_audio_recorder g = None"
  by (cases s) (auto simp: stop_recording_def Let_def split: option.splits prod.splits)

lemma stop_recording_cleared:
  "b_conversation_recorder g = None \<Longrightarrow> user_audio_recorder g = None \<Longrightarrow>
   agent_audio_recorder g = None \<Longrightarrow>
   stop_recording rnd n1 n2 (g, w) = (False, g, print NoActiveRecording w)"
  by (simp add: stop_recording_def combine_if_both_def)

lemma combine_stop_calls:
  "stop_calls (snd (combine_audio_files rnd up ap out w)) = stop_calls w"
  by (simp add: combine_audio_files_def combine_body_def write_wav_def print_def
           split: sum.splits prod.splits if_splits)

lemma combine_if_both_stop_calls:
  "stop_calls (combine_if_both rnd up ap w) = stop_calls w"
  by (simp add: combine_if_both_def combine_stop_calls split: option.splits)

lemma stop_recording_stop_calls:
  "stop_calls (snd (snd (stop_recording rnd n1 n2 (g, w)))) =
     stop_calls w @ map cr_filepath (case_option [] (\<lambda>r. [r]) (b_conversation_recorder g))
                  @ map ar_filepath (case_option [] (\<lambda>r. [r]) (user_audio_recorder g))
                  @ map ar_filepath (case_option [] (\<lambda>r. [r]) (agent_audio_recorder g))"
  by (simp add: stop_recording_def combine_if_both_stop_calls cr_stop_calls ar_stop_calls print_def Let_def
           split: option.splits)

text \<open>
  Claim C5. The teardown is idempotent. In Variant A a second \<open>on_shutdown\<close> changes nothing
  at all (no recorder stopped, no file written, nothing printed), also after \<open>hangup_call\<close> has
  run; over both invocations each recorder that was referenced is stopped exactly once. In
  Variant B a second \<open>stop_recording\<close> returns False, stops no recorder and writes no file
  (it only prints that nothing is active), and the first one stops each referenced recorder once.
\<close>

theorem teardown_idempotent:
  "on_shutdown rnd n3 n4 (on_shutdown rnd n1 n2 (ga, w)) = on_shutdown rnd n1 n2 (ga, w)
   \<and> on_shutdown rnd n3 n4 (fst (hangup_call rnd ctx n1 n2 (ga, w)), fst (snd (hangup_call rnd ctx n1 n2 (ga, w))))
       = (fst (hangup_call rnd ctx n1 n2 (ga, w)), fst (snd (hangup_call rnd ctx n1 n2 (ga, w))))
   \<and> stop_calls (snd (on_shutdown rnd n3 n4 (on_shutdown rnd n1 n2 (ga, w)))) =
       stop_calls w @ map cr_filepath (case_option [] (\<lambda>r. [r]) (a_conversation_recorder ga))
                    @ map lar_filepath (case_option [] (\<lambda>r. [r]) (a_audio_recorder ga))
   \<and> (case stop_recording rnd n1 n2 (gb, w) of (stopped, g', w') \<Rightarrow>
        stop_recording rnd n3 n4 (g', w') = (False, g', print NoActiveRecording w')
        \<and> files (snd (snd (stop_recording rnd n3 n4 (g', w')))) = files w'
        \<and> stop_calls (snd (snd (stop_recording rnd n3 n4 (g', w')))) =
            stop_calls w @ map cr_filepath (case_option [] (\<lambda>r. [r]) (b_conversation_recorder gb))
                         @ map ar_filepath (case_option [] (\<lambda>r. [r]) (user_audio_recorder gb))
                         @ map ar_filepath (case_option [] (\<lambda>r. [r]) (agent_audio_recorder gb)))"
proof -
  let ?s = "on_shutdown rnd n1 n2 (ga, w)"
  have 1: "on_shutdown rnd n3 n4 ?s = ?s"
    by (rule on_shutdown_cleared) (simp_all add: on_shutdown_clears)
  have h: "(fst (hangup_call rnd ctx n1 n2 (ga, w)), fst (snd (hangup_call rnd ctx n1 n2 (ga, w)))) = ?s"
    by (simp add: hangup_call_def on_shutdown_def split: prod.splits)
  obtain b g' w' where e: "stop_recording rnd n1 n2 (gb, w) = (b, g', w')"
    by (cases "stop_recording rnd n1 n2 (gb, w)") auto
  have 2: "stop_recording rnd n3 n4 (g', w') = (False, g', print NoActiveRecording w')"
    using stop_recording_clears [OF e] by (simp add: stop_recording_cleared)
  have 3: "stop_calls w' =
            stop_calls w @ map cr_filepath (case_option [] (\<lambda>r. [r]) (b_conversation_recorder gb))
                         @ map ar_filepath (case_option [] (\<lambda>r. [r]) (user_audio_recorder gb))
                         @ map ar_filepath (case_option [] (\<lambda>r. [r]) (agent_audio_recorder gb))"
    using stop_recording_stop_calls [of rnd n1 n2 gb w] by (simp add: e)
  show ?thesis
    using 1 by (simp add: h on_shutdown_stop_calls e 2 3 print_def)
qed



lemma interp_bounds:
  fixes s0 s1 :: int and f :: real
  assumes r: "binary64_like rnd"
    and s0: "- 32768 \<le> s0" "s0 \<le> 32767" and s1: "- 32768 \<le> s1" "s1 \<le> 32767"
    and f: "0 \<le> f" "f \<le> 1"
  shows "- 32768 \<le> py_int (rnd (rnd (real_of_int s0 * rnd (1 - f)) + rnd (real_of_int s1 * f)))"
    and "py_int (rnd (rnd (real_of_int s0 * rnd (1 - f)) + rnd (real_of_int s1 * f))) \<le> 32767"
proof -
  define e :: real where "e = 1 / 2 ^ 20"
  have e: "0 \<le> e" "32771 * e < 1" by (simp_all add: e_def)
  have m: "mono rnd" and r0: "rnd 0 = 0" and r1: "rnd 1 = 1"
    and err: "\<And>x. \<bar>x\<bar> \<le> 65536 \<Longrightarrow> \<bar>rnd x - x\<bar> \<le> e"
    using r by (simp_all add: binary64_like_def e_def)
  define g where "g = rnd (1 - f)"
  have g0: "0 \<le> g" using monoD [OF m, of 0 "1 - f"] f by (simp add: g_def r0)
  have g1: "g \<le> 1" using monoD [OF m, of "1 - f" 1] f by (simp add: g_def r1)
  have gerr: "\<bar>g - (1 - f)\<bar> \<le> e" unfolding g_def using f by (intro err) simp
  define a :: real where "a = real_of_int s0"
  define b :: real where "b = real_of_int s1"
  have a: "- 32768 \<le> a" "a \<le> 32767" using s0 by (simp_all add: a_def)
  have b: "- 32768 \<le> b" "b \<le> 32767" using s1 by (simp_all add: b_def)
  have ag_hi: "a * g \<le> 32767 * g" using a g0 by (simp add: mult_right_mono)
  have ag_lo: "- 32768 * g \<le> a * g" using a(1) g0 by (rule mult_right_mono)
  have bf_hi: "b * f \<le> 32767 * f" using b f by (simp add: mult_right_mono)
  have bf_lo: "- 32768 * f \<le> b * f" using b(1) f(1) by (rule mult_right_mono)
  define p where "p = rnd (a * g)"
  define q where "q = rnd (b * f)"
  have perr: "\<bar>p - a * g\<bar> \<le> e" unfolding p_def using ag_hi ag_lo g0 g1 by (intro err) simp
  have qerr: "\<bar>q - b * f\<bar> \<le> e" unfolding q_def using bf_hi bf_lo f by (intro err) simp
  have pq: "\<bar>p + q\<bar> \<le> 65536"
    using perr qerr ag_hi ag_lo bf_hi bf_lo gerr e f g0 g1 by linarith
  define t where "t = rnd (p + q)"
  have terr: "\<bar>t - (p + q)\<bar> \<le> e" unfolding t_def using pq by (intro err)
  have hi: "t < 32768"
    using terr perr qerr ag_hi bf_hi gerr e f g0 g1 by linarith
  have lo: "- 32769 < t"
    using terr perr qerr ag_lo bf_lo gerr e f g0 g1 by linarith
  have t: "t = rnd (rnd (real_of_int s0 * rnd (1 - f)) + rnd (real_of_int s1 * f))"
    by (simp add: t_def p_def q_def g_def a_def b_def)
  show "- 32768 \<le> py_int (rnd (rnd (real_of_int s0 * rnd (1 - f)) + rnd (real_of_int s1 * f)))"
    unfolding t [symmetric] py_int_def using lo by (auto simp: le_floor_iff le_ceiling_iff) 
  show "py_int (rnd (rnd (real_of_int s0 * rnd (1 - f)) + rnd (real_of_int s1 * f))) \<le> 32767"
    unfolding t [symmetric] py_int_def using hi by (auto simp: floor_le_iff ceiling_le_iff)
qed


lemma int16_le16_samples: "list_all int16 (le16_samples bs)"
proof (induction bs rule: le16_samples.induct)
  case (1 lo hi rest)
  have "- 32768 \<le> sint (word_cat hi lo :: 16 word)" "sint (word_cat hi lo :: 16 word) \<le> 32767"
    using sint_ge [of "word_cat hi lo :: 16 word"] sint_lt [of "word_cat hi lo :: 16 word"]
    by simp_all
  with 1 show ?case by (simp add: int16_def)
qed simp_all




lemma collect_all:
  "collect f xs = Inr ys \<Longrightarrow> list_all (\<lambda>x. \<forall>y. f x = Inr y \<longrightarrow> P y) xs \<Longrightarrow> list_all P ys"
  by (induction xs arbitrary: ys) (auto split: sum.splits)

lemma collect_total:
  "list_all (\<lambda>x. \<exists>y. f x = Inr y) xs \<Longrightarrow> \<exists>ys. collect f xs = Inr ys"
  by (induction xs) (auto split: sum.splits)

lemma py_index_mem: "py_index xs i = Inr v \<Longrightarrow> v \<in> set xs"
  by (auto simp: py_index_def Let_def split: if_splits)

lemma py_int_nonneg: "0 \<le> x \<Longrightarrow> 0 \<le> py_int x"
  by (simp add: py_int_def)

lemma py_int_frac: "0 \<le> x \<Longrightarrow> 0 \<le> x - real_of_int (py_int x) \<and> x - real_of_int (py_int x) \<le> 1"
  unfolding py_int_def by (simp; linarith)

lemma resample_at_int16:
  assumes r: "binary64_like rnd" and s: "list_all int16 samples" and ratio: "0 \<le> ratio"
    and i: "0 \<le> i" and v: "resample_at rnd samples ratio i = Inr v"
  shows "int16 v"
proof -
  have m: "mono rnd" and r0: "rnd 0 = 0" and r1: "rnd 1 = 1"
    using r by (simp_all add: binary64_like_def)
  from v obtain src_idx where d: "py_truediv rnd (real_of_int i) ratio = Inr src_idx"
    by (auto simp: resample_at_def split: sum.splits)
  then have src: "src_idx = rnd (real_of_int i / ratio)"
    by (auto simp: py_truediv_def split: if_splits)
  have "0 \<le> real_of_int i / ratio" using i ratio by simp
  then have src0: "0 \<le> src_idx" using monoD [OF m, of 0 "real_of_int i / ratio"] by (simp add: src r0)
  define idx where "idx = py_int src_idx"
  define frac where "frac = rnd (src_idx - real_of_int idx)"
  have fr: "0 \<le> src_idx - real_of_int idx" "src_idx - real_of_int idx \<le> 1"
    using py_int_frac [OF src0] by (simp_all add: idx_def)
  have f0: "0 \<le> frac" using monoD [OF m fr(1)] by (simp add: frac_def r0)
  have f1: "frac \<le> 1" using monoD [OF m fr(2)] by (simp add: frac_def r1)
  show ?thesis
  proof (cases "idx \<ge> int (length samples) - 1")
    case True
    with v d have "py_index samples (- 1) = Inr v"
      by (simp add: resample_at_def idx_def Let_def)
    then have "v \<in> set samples" by (rule py_index_mem)
    with s show ?thesis by (simp add: list_all_iff)
  next
    case False
    with v d obtain s0 s1 where s0: "py_index samples idx = Inr s0"
      and s1: "py_index samples (idx + 1) = Inr s1"
      and veq: "v = py_int (rnd (rnd (real_of_int s0 * rnd (1 - frac)) + rnd (real_of_int s1 * frac)))"
      by (auto simp: resample_at_def idx_def frac_def Let_def split: sum.splits)
    have "int16 s0" "int16 s1"
      using py_index_mem [OF s0] py_index_mem [OF s1] s by (simp_all add: list_all_iff)
    then show ?thesis
      unfolding veq int16_def using interp_bounds [OF r _ _ _ _ f0 f1, of s0 s1] by simp
  qed
qed

lemma resample_at_total:
  assumes r: "binary64_like rnd" and ne: "samples \<noteq> []" and ratio: "0 < ratio" and i: "0 \<le> i"
  shows "\<exists>v. resample_at rnd samples ratio i = Inr v"
proof -
  have m: "mono rnd" and r0: "rnd 0 = 0"
    using r by (simp_all add: binary64_like_def)
  define src_idx where "src_idx = rnd (real_of_int i / ratio)"
  have d: "py_truediv rnd (real_of_int i) ratio = Inr src_idx"
    using ratio by (simp add: py_truediv_def src_idx_def)
  have "0 \<le> real_of_int i / ratio" using i ratio by simp
  then have src0: "0 \<le> src_idx"
    using monoD [OF m, of 0 "real_of_int i / ratio"] by (simp add: src_idx_def r0)
  then have idx0: "0 \<le> py_int src_idx" by (rule py_int_nonneg)
  show ?thesis
  proof (cases "py_int src_idx \<ge> int (length samples) - 1")
    case True
    have "Suc 0 \<le> length samples" using ne by (cases samples) simp_all
    then show ?thesis using True by (simp add: resample_at_def d Let_def py_index_def)
  next
    case False
    then show ?thesis using idx0 by (simp add: resample_at_def d Let_def py_index_def)
  qed
qed

lemma py_range_nonneg: "list_all (\<lambda>i. 0 \<le> i) (py_range n)"
  by (simp add: py_range_def list_all_iff)

lemma resample_int16:
  assumes r: "binary64_like rnd" and s: "list_all int16 samples"
    and out: "resample rnd samples from_rate to_rate = Inr out"
  shows "list_all int16 out"
proof (cases "from_rate = to_rate")
  case True
  with out s show ?thesis by (simp add: resample_def)
next
  case False
  have m: "mono rnd" and r0: "rnd 0 = 0" using r by (simp_all add: binary64_like_def)
  from out False obtain ratio where d: "py_truediv rnd (real to_rate) (real from_rate) = Inr ratio"
    and c: "collect (resample_at rnd samples ratio)
              (py_range (py_int (rnd (real (length samples) * ratio)))) = Inr out"
    by (auto simp: resample_def Let_def split: sum.splits)
  from d have "ratio = rnd (real to_rate / real from_rate)"
    by (auto simp: py_truediv_def split: if_splits)
  then have ratio: "0 \<le> ratio"
    using monoD [OF m, of 0 "real to_rate / real from_rate"] by (simp add: r0)
  show ?thesis
  proof (rule collect_all [OF c])
    show "list_all (\<lambda>x. \<forall>y. resample_at rnd samples ratio x = Inr y \<longrightarrow> int16 y)
            (py_range (py_int (rnd (real (length samples) * ratio))))"
      using py_range_nonneg [of "py_int (rnd (real (length samples) * ratio))"]
            resample_at_int16 [OF r s ratio]
      by (auto simp: list_all_iff)
  qed
qed

lemma resample_total:
  assumes r: "binary64_like rnd" and f: "0 < from_rate" and le: "from_rate \<le> to_rate"
  shows "\<exists>out. resample rnd samples from_rate to_rate = Inr out"
proof (cases "from_rate = to_rate")
  case True
  then show ?thesis by (simp add: resample_def)
next
  case False
  have m: "mono rnd" and r0: "rnd 0 = 0" and r1: "rnd 1 = 1"
    using r by (simp_all add: binary64_like_def)
  define ratio where "ratio = rnd (real to_rate / real from_rate)"
  have d: "py_truediv rnd (real to_rate) (real from_rate) = Inr ratio"
    using f by (simp add: py_truediv_def ratio_def)
  have "1 \<le> real to_rate / real from_rate" using f le by simp
  then have "1 \<le> ratio" using monoD [OF m, of 1 "real to_rate / real from_rate"]
    by (simp add: ratio_def r1)
  then have ratio: "0 < ratio" by simp
  show ?thesis
  proof (cases "samples = []")
    case True
    then show ?thesis using False by (simp add: resample_def d r0 py_int_def py_range_def)
  next
    case ne: False
    have "list_all (\<lambda>x. \<exists>y. resample_at rnd samples ratio x = Inr y)
            (py_range (py_int (rnd (real (length samples) * ratio))))"
      using py_range_nonneg [of "py_int (rnd (real (length samples) * ratio))"]
            resample_at_total [OF r ne ratio]
      by (auto simp: list_all_iff)
    from collect_total [OF this] show ?thesis using False by (simp add: resample_def d Let_def)
  qed
qed


lemma mix_int16: "int16 (mix u a)"
  by (simp add: mix_def int16_def)

lemma mix_no_clamp: "int16 u \<Longrightarrow> int16 a \<Longrightarrow> mix u a = (u + a) div 2"
  unfolding mix_def int16_def by linarith

lemma mix_samples_int16: "list_all int16 (mix_samples us as)"
  by (simp add: mix_samples_def list_all_iff mix_int16 split: prod.splits)

lemma mix_samples_no_clamp:
  "list_all int16 us \<Longrightarrow> list_all int16 as \<Longrightarrow>
   mix_samples us as = map (\<lambda>(u, a). (u + a) div 2) (zip us as)"
proof -
  assume u: "list_all int16 us" and a: "list_all int16 as"
  have "mix x y = (x + y) div 2" if "(x, y) \<in> set (zip us as)" for x y
  proof -
    from that have "x \<in> set us" "y \<in> set as"
      by (auto dest: set_zip_leftD set_zip_rightD)
    with u a show ?thesis by (simp add: list_all_iff mix_no_clamp)
  qed
  then show ?thesis by (auto simp: mix_samples_def)
qed

text \<open>
  Claim C10. For two samples in the signed 16-bit range the clamp of the mix changes nothing:
  \<open>(u + a) div 2\<close> is already in range. Under a rounding that behaves like binary64, resampling
  in-range samples yields in-range samples, so on in-range lists the mix is the plain floor
  average; and packing the mixed samples never fails.
\<close>

theorem clamp_redundant_pack_total:
  "(int16 u \<and> int16 a \<longrightarrow> mix u a = (u + a) div 2 \<and> int16 ((u + a) div 2))
   \<and> (binary64_like rnd \<and> list_all int16 samples \<and> resample rnd samples from_rate to_rate = Inr out
        \<longrightarrow> list_all int16 out)
   \<and> (list_all int16 us \<and> list_all int16 as \<longrightarrow>
        mix_samples us as = map (\<lambda>(u, a). (u + a) div 2) (zip us as))
   \<and> pack_h (mix_samples us as) = Inr (concat (map le16_bytes (mix_samples us as)))"
proof -
  have "int16 ((u + a) div 2)" if "int16 u" "int16 a"
    using mix_int16 [of u a] mix_no_clamp [OF that] by simp
  then show ?thesis
    using resample_int16 [of rnd samples from_rate to_rate out]
    by (auto simp: mix_no_clamp mix_samples_no_clamp pack_h_def mix_samples_int16)
qed

theorem clamp_redundant_pack_total_witness:
  "int16 32767 \<and> int16 (- 32768) \<and> mix 32767 (- 32768) = - 1
   \<and> binary64_like exact \<and> list_all int16 [0, 100]
   \<and> resample exact [0, 100] 8000 16000 = Inr [0, 50, 100, 100]
   \<and> list_all int16 [0, 50, 100, 100]
   \<and> list_all int16 [32767, - 3] \<and> list_all int16 [32767, - 4]
   \<and> mix_samples [32767, - 3] [32767, - 4] = [32767, - 4]"
proof -
  have r: "resample exact [0, 100] 8000 16000 = Inr [0, 50, 100, 100]"
    by (simp add: resample_def py_truediv_def exact_def py_int_def py_range_def upt_conv_Cons
          resample_at_def py_index_def Let_def)
  have b: "binary64_like exact"
    by (simp add: binary64_like_def exact_def mono_def)
  show ?thesis
    using clamp_redundant_pack_total
      [of 32767 "- 32768" exact "[0, 100]" 8000 16000 "[0, 50, 100, 100]" "[32767, - 3]" "[32767, - 4]"]
    by (simp add: r b int16_def)
qed
















lemma events_emit: "events (emit e c) = events c @ [e]"
  by (simp add: emit_def)

lemma events_sip_print: "events (sip_print ls c) = events c @ map Printed ls"
  by (simp add: sip_print_def)

lemma events_aclose: "events (aclose lk c) = events c @ [Closed lk]"
  by (simp add: aclose_def emit_def)

lemma clients_emit: "clients_opened (emit e c) = clients_opened c"
  by (simp add: emit_def)

lemma clients_sip_print: "clients_opened (sip_print ls c) = clients_opened c"
  by (simp add: sip_print_def)

lemma clients_aclose: "clients_opened (aclose lk c) = clients_opened c"
  by (simp add: aclose_def emit_def)

lemma requests_append: "requests (xs @ ys) = requests xs @ requests ys"
  by (induction xs rule: requests.induct) simp_all

lemma opened_append: "opened_clients (xs @ ys) = opened_clients xs @ opened_clients ys"
  by (induction xs rule: opened_clients.induct) simp_all

lemma closed_append: "closed_clients (xs @ ys) = closed_clients xs @ closed_clients ys"
  by (induction xs rule: closed_clients.induct) simp_all

lemma requests_Printed: "requests (map Printed ls) = []"
  by (induction ls) simp_all

lemma opened_Printed: "opened_clients (map Printed ls) = []"
  by (induction ls) simp_all

lemma closed_Printed: "closed_clients (map Printed ls) = []"
  by (induction ls) simp_all

lemma new_events_append: "events c' = events c @ es \<Longrightarrow> new_events c c' = es"
  by (simp add: new_events_def)

lemmas sip_simps = events_emit events_sip_print events_aclose clients_emit clients_sip_print
  clients_aclose requests_append opened_append closed_append requests_Printed opened_Printed
  closed_Printed LiveKitAPI_def new_events_def left_open_def

lemma list_sip_trunks_events:
  "\<exists>es. events (snd (list_sip_trunks cp c)) = events c @ es
       \<and> clients_opened (snd (list_sip_trunks cp c)) = Suc (clients_opened c)
       \<and> list_all is_list (requests es)
       \<and> left_open es = (case fst (list_sip_trunks cp c) of Inl e \<Rightarrow> [clients_opened c] | Inr u \<Rightarrow> [])"
  by (simp add: list_sip_trunks_def Let_def sip_simps split: sum.splits)

lemma single_op_left_open:
  "left_open (new_events c (snd (list_dispatch_rules cp c))) =
     (case fst (list_dispatch_rules cp c) of Inl e \<Rightarrow> [clients_opened c] | Inr u \<Rightarrow> [])"
  "left_open (new_events c (snd (create_inbound_trunk cp name numbers allowed c))) =
     (case fst (create_inbound_trunk cp name numbers allowed c) of Inl e \<Rightarrow> [clients_opened c] | Inr u \<Rightarrow> [])"
  "left_open (new_events c (snd (create_outbound_trunk cp name address numbers u p c))) =
     (case fst (create_outbound_trunk cp name address numbers u p c) of Inl e \<Rightarrow> [clients_opened c] | Inr u \<Rightarrow> [])"
  "left_open (new_events c (snd (create_dispatch_rule cp name prefix ids c))) =
     (case fst (create_dispatch_rule cp name prefix ids c) of Inl e \<Rightarrow> [clients_opened c] | Inr u \<Rightarrow> [])"
  "left_open (new_events c (snd (delete_inbound_trunk cp tid c))) =
     (case fst (delete_inbound_trunk cp tid c) of Inl e \<Rightarrow> [clients_opened c] | Inr u \<Rightarrow> [])"
  "left_open (new_events c (snd (delete_dispatch_rule cp rid c))) =
     (case fst (delete_dispatch_rule cp rid c) of Inl e \<Rightarrow> [clients_opened c] | Inr u \<Rightarrow> [])"
  by (simp_all add: list_dispatch_rules_def create_inbound_trunk_def create_outbound_trunk_def
        create_dispatch_rule_def delete_inbound_trunk_def delete_dispatch_rule_def
        Let_def sip_simps split: sum.splits)

lemma setup_left_open:
  "length (left_open (new_events c (snd (setup_twilio_trunk cp phone domain u p c)))) =
     (case fst (setup_twilio_trunk cp phone domain u p c) of Inl e \<Rightarrow> 1 | Inr r \<Rightarrow> 0)"
  by (simp add: setup_twilio_trunk_def create_inbound_trunk_def create_outbound_trunk_def
        create_dispatch_rule_def Let_def sip_simps split: sum.splits)


lemma outcome_simps:
  "snd (outcome r) = snd r"
  "fst (outcome r) = (case fst r of Inl e \<Rightarrow> Inl e | Inr x \<Rightarrow> Inr ())"
  by (cases r; cases "fst r"; simp add: outcome_def)+

text \<open>
  Claim C4, as stated, fails: when the control-plane call of an operation raises, the
  operation ends with the exception and its client is never closed. Here the creation of an
  inbound trunk against a control plane that raises leaves client 0 open.
\<close>

theorem client_left_open_counterexample:
  "fst (run_op failing_plane (CreateInbound ''Twilio Inbound'' [''+15550100''] None) fresh_cli) = Inl ApiError
   \<and> new_events fresh_cli
        (snd (run_op failing_plane (CreateInbound ''Twilio Inbound'' [''+15550100''] None) fresh_cli)) =
       [Opened 0, Called (CreateSIPInboundTrunkRequest
          \<lparr>iti_name = ''Twilio Inbound'', iti_numbers = [''+15550100''], iti_allowed_addresses = []\<rparr>)]
   \<and> left_open (new_events fresh_cli
        (snd (run_op failing_plane (CreateInbound ''Twilio Inbound'' [''+15550100''] None) fresh_cli))) = [0]"
  by (simp add: outcome_def create_inbound_trunk_def failing_plane_def fresh_cli_def Let_def sip_simps)

text \<open>
  Claim C4, amended. Every provisioning operation (list trunks, list rules, the three
  creations, the two deletions, setup) that completes without an exception has closed every
  client it opened. When a control-plane call raises, the exception propagates and exactly
  one client, the one of the failing call, is left open.
\<close>

theorem client_closed_unless_raised:
  "(fst (run_op cp op c) = Inr () \<longrightarrow> left_open (new_events c (snd (run_op cp op c))) = [])
   \<and> (fst (run_op cp op c) \<noteq> Inr () \<longrightarrow> length (left_open (new_events c (snd (run_op cp op c)))) = 1)"
proof (cases op)
  case ListTrunks
  obtain es where "events (snd (list_sip_trunks cp c)) = events c @ es"
    and "left_open es = (case fst (list_sip_trunks cp c) of Inl e \<Rightarrow> [clients_opened c] | Inr u \<Rightarrow> [])"
    using list_sip_trunks_events [of cp c] by blast
  then show ?thesis using ListTrunks
    by (auto simp: new_events_def split: sum.splits)
next
  case ListRules
  then show ?thesis using single_op_left_open(1) [of c cp]
    by (auto split: sum.splits)
next
  case (CreateInbound name numbers allowed)
  then show ?thesis using single_op_left_open(2) [of c cp name numbers allowed]
    by (auto simp: outcome_simps split: sum.splits)
next
  case (CreateOutbound name address numbers u p)
  then show ?thesis using single_op_left_open(3) [of c cp name address numbers u p]
    by (auto simp: outcome_simps split: sum.splits)
next
  case (CreateRule name prefix ids)
  then show ?thesis using single_op_left_open(4) [of c cp name prefix ids]
    by (auto simp: outcome_simps split: sum.splits)
next
  case (DeleteTrunk tid)
  then show ?thesis using single_op_left_open(5) [of c cp tid]
    by (auto split: sum.splits)
next
  case (DeleteRule rid)
  then show ?thesis using single_op_left_open(6) [of c cp rid]
    by (auto split: sum.splits)
next
  case (Setup phone domain u p)
  then show ?thesis using setup_left_open [of c cp phone domain u p]
    by (auto simp: outcome_simps split: sum.splits)
qed

theorem client_closed_unless_raised_witness:
  "fst (run_op obliging_plane (Setup ''+15550100'' ''x.pstn.twilio.com'' None None) fresh_cli) = Inr ()
   \<and> left_open (new_events fresh_cli
        (snd (run_op obliging_plane (Setup ''+15550100'' ''x.pstn.twilio.com'' None None) fresh_cli))) = []
   \<and> fst (run_op failing_plane (DeleteTrunk ''ST_in'') fresh_cli) \<noteq> Inr ()
   \<and> length (left_open (new_events fresh_cli
        (snd (run_op failing_plane (DeleteTrunk ''ST_in'') fresh_cli)))) = 1"
proof -
  have 1: "fst (run_op obliging_plane (Setup ''+15550100'' ''x.pstn.twilio.com'' None None) fresh_cli) = Inr ()"
    by (simp add: outcome_def setup_twilio_trunk_def create_inbound_trunk_def create_outbound_trunk_def
          create_dispatch_rule_def obliging_plane_def Let_def LiveKitAPI_def)
  have 2: "fst (run_op failing_plane (DeleteTrunk ''ST_in'') fresh_cli) \<noteq> Inr ()"
    by (simp add: delete_inbound_trunk_def failing_plane_def Let_def LiveKitAPI_def)
  show ?thesis
    using client_closed_unless_raised
            [of obliging_plane "Setup ''+15550100'' ''x.pstn.twilio.com'' None None" fresh_cli]
          client_closed_unless_raised [of failing_plane "DeleteTrunk ''ST_in''" fresh_cli] 1 2
    by simp
qed

text \<open>
  Claim C8. When the three creation calls are answered, \<open>setup_twilio_trunk\<close> sends exactly
  three requests, in this order: the inbound trunk "Twilio Inbound" with the phone number, the
  outbound trunk "Twilio Outbound" at the domain with the credentials (empty when absent), and
  the dispatch rule "Voice Agent Dispatch" with room prefix "call-" whose trunk ids are exactly
  the id of the inbound trunk just created. It returns the three objects and its last lines
  report the three ids.
\<close>

theorem setup_three_creations:
  assumes i: "create_sip_inbound_trunk cp
                \<lparr>iti_name = ''Twilio Inbound'', iti_numbers = [phone_number], iti_allowed_addresses = []\<rparr>
              = Inr inbound"
    and o: "create_sip_outbound_trunk cp
                \<lparr>oti_name = ''Twilio Outbound'', oti_address = twilio_domain, oti_numbers = [phone_number],
                 oti_auth_username = (case twilio_username of None \<Rightarrow> [] | Some u \<Rightarrow> u),
                 oti_auth_password = (case twilio_password of None \<Rightarrow> [] | Some p \<Rightarrow> p)\<rparr>
              = Inr outbound"
    and r: "create_sip_dispatch_rule cp
                \<lparr>drr_name = ''Voice Agent Dispatch'', drr_trunk_ids = [it_sip_trunk_id inbound],
                 drr_room_prefix = ''call-''\<rparr>
              = Inr rule"
  shows "fst (setup_twilio_trunk cp phone_number twilio_domain twilio_username twilio_password c)
           = Inr (inbound, outbound, rule)
       \<and> requests (new_events c
           (snd (setup_twilio_trunk cp phone_number twilio_domain twilio_username twilio_password c))) =
          [CreateSIPInboundTrunkRequest
             \<lparr>iti_name = ''Twilio Inbound'', iti_numbers = [phone_number], iti_allowed_addresses = []\<rparr>,
           CreateSIPOutboundTrunkRequest
             \<lparr>oti_name = ''Twilio Outbound'', oti_address = twilio_domain, oti_numbers = [phone_number],
              oti_auth_username = (case twilio_username of None \<Rightarrow> [] | Some u \<Rightarrow> u),
              oti_auth_password = (case twilio_password of None \<Rightarrow> [] | Some p \<Rightarrow> p)\<rparr>,
           CreateSIPDispatchRuleRequest
             \<lparr>drr_name = ''Voice Agent Dispatch'', drr_trunk_ids = [it_sip_trunk_id inbound],
              drr_room_prefix = ''call-''\<rparr>]
       \<and> drop 13 (new_events c
           (snd (setup_twilio_trunk cp phone_number twilio_domain twilio_username twilio_password c))) =
          map Printed
            [Text (newline @ ''=== Setup Complete ===''),
             Text (''Inbound Trunk ID: '' @ it_sip_trunk_id inbound),
             Text (''Outbound Trunk ID: '' @ ot_sip_trunk_id outbound),
             Text (''Dispatch Rule ID: '' @ dr_sip_dispatch_rule_id rule)]"
  by (simp add: setup_twilio_trunk_def create_inbound_trunk_def create_outbound_trunk_def
        create_dispatch_rule_def Let_def i o r events_emit events_sip_print events_aclose
        LiveKitAPI_def new_events_def)

theorem setup_three_creations_witness:
  "create_sip_inbound_trunk obliging_plane
      \<lparr>iti_name = ''Twilio Inbound'', iti_numbers = [''+15550100''], iti_allowed_addresses = []\<rparr>
     = Inr \<lparr>it_sip_trunk_id = ''ST_in'', it_name = ''Twilio Inbound'', it_numbers = [''+15550100'']\<rparr>
   \<and> fst (setup_twilio_trunk obliging_plane ''+15550100'' ''x.pstn.twilio.com'' (Some ''user'') None fresh_cli)
     = Inr (\<lparr>it_sip_trunk_id = ''ST_in'', it_name = ''Twilio Inbound'', it_numbers = [''+15550100'']\<rparr>,
            \<lparr>ot_sip_trunk_id = ''ST_out'', ot_name = ''Twilio Outbound'', ot_address = ''x.pstn.twilio.com'',
             ot_numbers = [''+15550100'']\<rparr>,
            \<lparr>dr_sip_dispatch_rule_id = ''SDR_1'', dr_name = ''Voice Agent Dispatch'',
             dr_trunk_ids = [''ST_in''], dr_rule = ''call-''\<rparr>)
   \<and> length (requests (new_events fresh_cli
        (snd (setup_twilio_trunk obliging_plane ''+15550100'' ''x.pstn.twilio.com'' (Some ''user'') None fresh_cli)))) = 3"
proof -
  have i: "create_sip_inbound_trunk obliging_plane
      \<lparr>iti_name = ''Twilio Inbound'', iti_numbers = [''+15550100''], iti_allowed_addresses = []\<rparr>
     = Inr \<lparr>it_sip_trunk_id = ''ST_in'', it_name = ''Twilio Inbound'', it_numbers = [''+15550100'']\<rparr>"
    by (simp add: obliging_plane_def)
  have o: "create_sip_outbound_trunk obliging_plane
      \<lparr>oti_name = ''Twilio Outbound'', oti_address = ''x.pstn.twilio.com'', oti_numbers = [''+15550100''],
       oti_auth_username = (case Some ''user'' of None \<Rightarrow> [] | Some u \<Rightarrow> u),
       oti_auth_password = (case None of None \<Rightarrow> [] | Some p \<Rightarrow> p)\<rparr>
     = Inr \<lparr>ot_sip_trunk_id = ''ST_out'', ot_name = ''Twilio Outbound'', ot_address = ''x.pstn.twilio.com'',
             ot_numbers = [''+15550100'']\<rparr>"
    by (simp add: obliging_plane_def)
  have r: "create_sip_dispatch_rule obliging_plane
      \<lparr>drr_name = ''Voice Agent Dispatch'',
       drr_trunk_ids = [it_sip_trunk_id \<lparr>it_sip_trunk_id = ''ST_in'', it_name = ''Twilio Inbound'',
                                         it_numbers = [''+15550100'']\<rparr>],
       drr_room_prefix = ''call-''\<rparr>
     = Inr \<lparr>dr_sip_dispatch_rule_id = ''SDR_1'', dr_name = ''Voice Agent Dispatch'',
             dr_trunk_ids = [''ST_in''], dr_rule = ''call-''\<rparr>"
    by (simp add: obliging_plane_def)
  show ?thesis
    using setup_three_creations [OF i o r, of fresh_cli] i by simp
qed

text \<open>
  Claim C9. Whatever the operator answers to the confirmation of \<open>delete-all\<close> (also when no
  answer can be read) and whatever the control plane does, no delete request is sent: every
  request the command sends is a list request.
\<close>

theorem delete_all_never_deletes:
  "filter is_delete (requests (new_events c (snd (main cp [prog, ''delete-all''] answers c)))) = []
   \<and> list_all is_list (requests (new_events c (snd (main cp [prog, ''delete-all''] answers c))))"
proof -
  obtain es where e: "events (snd (list_sip_trunks cp c)) = events c @ es"
    and l: "list_all is_list (requests es)"
    using list_sip_trunks_events [of cp c] by blast
  have d: "filter is_delete (requests es) = []"
  proof -
    have "\<not> is_delete x" if "is_list x" for x using that by (cases x) simp_all
    with l show ?thesis by (auto simp: list_all_iff filter_empty_conv)
  qed
  show ?thesis
    using e l d
    by (cases "list_sip_trunks cp c"; cases "fst (list_sip_trunks cp c)")
       (auto simp: main_def new_events_def events_sip_print requests_append requests_Printed
             split: list.splits)
qed


end
